theory Spec2Isabelle
  imports Main "HOL-Library.Sublist" "HOL-Library.AList"
begin

section \<open>Strings\<close>

text \<open>
  Strings are byte lists (UTF-8). All needles the client searches for and all URL pieces
  it builds are ASCII, so byte-wise search and concatenation agree with JavaScript's.
\<close>

text \<open>\<^verbatim>\<open>String.prototype.includes\<close>: \<open>str_includes s sub\<close> is \<^verbatim>\<open>s.includes(sub)\<close>.\<close>

fun starts_with :: "string \<Rightarrow> string \<Rightarrow> bool" where
  "starts_with s [] = True"
| "starts_with [] (c # cs) = False"
| "starts_with (d # ds) (c # cs) = (d = c \<and> starts_with ds cs)"

fun str_includes :: "string \<Rightarrow> string \<Rightarrow> bool" where
  "str_includes [] sub = (sub = [])"
| "str_includes (c # cs) sub = (starts_with (c # cs) sub \<or> str_includes cs sub)"

text \<open>
  Decimal rendering of an integer inside a template literal, as the engine prints
  integers of magnitude below \<open>10\<^sup>2\<^sup>1\<close>.
\<close>

definition digit_char :: "nat \<Rightarrow> char" where
  "digit_char d = char_of (48 + d)"

function show_nat :: "nat \<Rightarrow> string" where
  "show_nat n = (if n < 10 then [digit_char n] else show_nat (n div 10) @ [digit_char (n mod 10)])"
  by pat_completeness auto
termination
  by (relation "measure id") auto

declare show_nat.simps [simp del]

definition show_int :: "int \<Rightarrow> string" where
  "show_int i = (if i < 0 then CHR ''-'' # show_nat (nat (- i)) else show_nat (nat i))"

text \<open>\<^verbatim>\<open>Array.prototype.join\<close> on an array of strings.\<close>

fun join :: "string \<Rightarrow> string list \<Rightarrow> string" where
  "join sep [] = []"
| "join sep [x] = x"
| "join sep (x # y # ys) = x @ sep @ join sep (y # ys)"

text \<open>
  \<^verbatim>\<open>encodeURIComponent\<close>: every byte outside the unreserved set is written as a percent
  sign and two upper-case hexadecimal digits.
\<close>

definition is_alnum :: "char \<Rightarrow> bool" where
  "is_alnum c = (let n = (of_char c :: nat) in
     (48 \<le> n \<and> n \<le> 57) \<or> (65 \<le> n \<and> n \<le> 90) \<or> (97 \<le> n \<and> n \<le> 122))"

definition uri_unreserved :: "char \<Rightarrow> bool" where
  "uri_unreserved c = (is_alnum c \<or> c \<in> set ''-_.!~*()'' \<or> c = CHR 0x27)"

definition hex_char :: "nat \<Rightarrow> char" where
  "hex_char d = (if d < 10 then char_of (48 + d) else char_of (55 + d))"

definition percent_byte :: "char \<Rightarrow> string" where
  "percent_byte c = [CHR ''%'', hex_char ((of_char c :: nat) div 16), hex_char ((of_char c :: nat) mod 16)]"

definition encodeURIComponent :: "string \<Rightarrow> string" where
  "encodeURIComponent s = concat (map (\<lambda>c. if uri_unreserved c then [c] else percent_byte c) s)"

text \<open>
  The serialiser of \<^verbatim>\<open>URLSearchParams\<close> (application/x-www-form-urlencoded): a space
  becomes a plus sign, alphanumerics and \<^verbatim>\<open>*-._\<close> stay, every other byte is
  percent-encoded.
\<close>

definition form_urlencode :: "string \<Rightarrow> string" where
  "form_urlencode s = concat (map (\<lambda>c.
       if c = CHR '' '' then ''+''
       else if is_alnum c \<or> c \<in> set ''*-._'' then [c]
       else percent_byte c) s)"

fun serialize_params :: "(string \<times> string) list \<Rightarrow> string" where
  "serialize_params ps = join ''&'' (map (\<lambda>(k, v). form_urlencode k @ ''='' @ form_urlencode v) ps)"

text \<open>\<^verbatim>\<open>String.prototype.trim\<close>, on the ASCII white space characters.\<close>

definition is_space :: "char \<Rightarrow> bool" where
  "is_space c = ((of_char c :: nat) \<in> {9, 10, 11, 12, 13, 32})"

definition trim :: "string \<Rightarrow> string" where
  "trim s = rev (dropWhile is_space (rev (dropWhile is_space s)))"

section \<open>JSON values and JavaScript errors\<close>

text \<open>
  A parsed response body. Numbers are integers: identifiers, status codes and
  contribution counts; \<open>JNum n\<close> is the parsed number, the double whose value is \<open>n\<close>.
  An object is its list of properties; a property read takes the first entry with that
  name.
\<close>

datatype json =
    JNull
  | JBool bool
  | JNum int
  | JStr string
  | JArr "json list"
  | JObj "(string \<times> json) list"

datatype js_error = JsError (err_name: string) (message: string)

abbreviation Error :: "string \<Rightarrow> js_error" where
  "Error m \<equiv> JsError ''Error'' m"

abbreviation TypeError :: "string \<Rightarrow> js_error" where
  "TypeError m \<equiv> JsError ''TypeError'' m"

type_synonym 'a result = "js_error + 'a"

text \<open>
  Reading a data property \<open>k\<close> of a JSON value; \<open>None\<close> is \<^verbatim>\<open>undefined\<close>. Reading from
  \<^verbatim>\<open>null\<close> throws. The names read by the client (\<^verbatim>\<open>items\<close>, \<^verbatim>\<open>audioUrl\<close>, \<^verbatim>\<open>ok\<close>,
  \<^verbatim>\<open>email\<close>, \<^verbatim>\<open>contributionCount\<close>, \<^verbatim>\<open>isApproved\<close>, \<^verbatim>\<open>rejectionReason\<close>) are not
  properties of arrays, strings, numbers or booleans.
\<close>

fun get_prop :: "json \<Rightarrow> string \<Rightarrow> (json option) result" where
  "get_prop JNull k = Inl (TypeError (''Cannot read properties of null (reading '' @ [CHR 0x27] @ k @ [CHR 0x27] @ '')''))"
| "get_prop (JObj kvs) k = Inr (map_of kvs k)"
| "get_prop v k = Inr None"

text \<open>Truthiness of a value, and of a property that may be \<^verbatim>\<open>undefined\<close>.\<close>

fun truthy :: "json \<Rightarrow> bool" where
  "truthy JNull = False"
| "truthy (JBool b) = b"
| "truthy (JNum n) = (n \<noteq> 0)"
| "truthy (JStr s) = (s \<noteq> [])"
| "truthy (JArr xs) = True"
| "truthy (JObj kvs) = True"

fun truthy_opt :: "json option \<Rightarrow> bool" where
  "truthy_opt None = False"
| "truthy_opt (Some v) = truthy v"

text \<open>
  \<^verbatim>\<open>String(v)\<close>. Inside an array \<^verbatim>\<open>null\<close> is rendered as the empty string and the
  elements are joined with commas.
\<close>

fun js_to_string :: "json \<Rightarrow> string" where
  "js_to_string JNull = ''null''"
| "js_to_string (JBool b) = (if b then ''true'' else ''false'')"
| "js_to_string (JNum n) = show_int n"
| "js_to_string (JStr s) = s"
| "js_to_string (JArr xs) = join '','' (map (\<lambda>x. if x = JNull then [] else js_to_string x) xs)"
| "js_to_string (JObj kvs) = ''[object Object]''"

section \<open>The browser: requests, responses, process-wide state\<close>

record blob =
  blob_size :: nat
  blob_type :: string

datatype form_value = FText string | FFile blob string

datatype req_body = NoBody | FormData "(string \<times> form_value) list" | JsonBody json

text \<open>
  A request as handed to \<^verbatim>\<open>fetch\<close>. \<open>req_cors\<close> stands for the pair
  \<^verbatim>\<open>mode: "cors", credentials: "include"\<close>; \<open>req_relay\<close> says that the request was handed
  to the CORS relay's \<^verbatim>\<open>fetch\<close> instead of the browser's.
\<close>

record request =
  req_method :: string
  req_url :: string
  req_headers :: "(string \<times> string) list"
  req_cors :: bool
  req_body :: req_body
  req_relay :: bool

text \<open>
  A response. Reading the body as text or as JSON may fail (\<^verbatim>\<open>response.json()\<close> rejects
  on a body that is not JSON).
\<close>

record response =
  status :: nat
  statusText :: string
  body_text :: "string result"
  body_json :: "json result"

definition ok :: "response \<Rightarrow> bool" where
  "ok r = (200 \<le> status r \<and> status r \<le> 299)"

text \<open>
  The world outside the module. \<open>net n req\<close> is how the \<open>n\<close>-th request of the process
  settles: \<open>Inl\<close> is a transport-level rejection of \<^verbatim>\<open>fetch\<close>. The CORS relay
  (\<^verbatim>\<open>./cors-proxy.js\<close>) is not among the sources: its \<^verbatim>\<open>isEnabled()\<close> is the parameter
  \<open>relay_enabled\<close>, and a request handed to its \<^verbatim>\<open>fetch(url, options)\<close> settles through
  \<open>net\<close> like any other, marked \<open>req_relay\<close>. \<open>string_to_number\<close> is the built-in
  conversion of a string to a number (\<open>None\<close> is NaN). \<open>double_minus_text a b\<close> is the text
  the engine prints for \<open>a - b\<close> computed in double precision; it is consulted only where
  that subtraction is not exact integer arithmetic.
\<close>

record env =
  net :: "nat \<Rightarrow> request \<Rightarrow> response result"
  relay_enabled :: bool
  string_to_number :: "string \<Rightarrow> int option"
  double_minus_text :: "int \<Rightarrow> int \<Rightarrow> string"

text \<open>
  The mutable state: the module-level flag \<^verbatim>\<open>usingFallbackUrl\<close>, the class
  \<^verbatim>\<open>loading-active\<close> on the document body, local storage, the toast container of the
  page with the number of toasts appended to it, and the number of requests issued.
\<close>

record client =
  usingFallbackUrl :: bool
  loading :: bool
  localStorage :: "string \<rightharpoonup> string"
  toastContainer :: bool
  toasts :: nat
  issued :: nat

text \<open>What an observer of the page sees, in order.\<close>

datatype event = ShowLoading | HideLoading | Issue request | Settle

section \<open>Module-level definitions\<close>

definition API_BASE_URLS_local :: string where
  "API_BASE_URLS_local = ''https://localhost:7152/api''"

text \<open>
  In the source the line of the \<^verbatim>\<open>production\<close> entry ends with a full stop where a
  comma is meant; its value is the string literal.
\<close>

definition API_BASE_URLS_production :: string where
  "API_BASE_URLS_production = ''https://palefo-mock-api-92d4b6d1e5b9.herokuapp.com/api''"

text \<open>\<^verbatim>\<open>ENVIRONMENT\<close> is the constant \<^verbatim>\<open>"production"\<close>.\<close>

definition API_BASE_URL :: string where
  "API_BASE_URL = API_BASE_URLS_production"

definition showLoading :: "client \<Rightarrow> client" where
  "showLoading s = s\<lparr>loading := True\<rparr>"

definition hideLoading :: "client \<Rightarrow> client" where
  "hideLoading s = s\<lparr>loading := False\<rparr>"

definition getApiUrl :: "client \<Rightarrow> string" where
  "getApiUrl s = (if usingFallbackUrl s then API_BASE_URLS_local else API_BASE_URL)"

text \<open>The browser's \<^verbatim>\<open>fetch\<close>: the request is issued, then it settles.\<close>

definition fetch :: "env \<Rightarrow> request \<Rightarrow> client \<Rightarrow> response result \<times> client \<times> event list" where
  "fetch e req s = (net e (issued s) req, s\<lparr>issued := Suc (issued s)\<rparr>, [Issue req, Settle])"

text \<open>\<^verbatim>\<open>fetch(url)\<close> without options.\<close>

definition plain_get :: "string \<Rightarrow> request" where
  "plain_get url = \<lparr>req_method = ''GET'', req_url = url, req_headers = [], req_cors = False,
     req_body = NoBody, req_relay = False\<rparr>"

text \<open>
  \<^verbatim>\<open>fetchWithCorsHandling(url, options)\<close>. The options are given as a request; the
  function forces CORS mode and the \<^verbatim>\<open>Accept\<close> header. Its catch block appends a toast
  when the message names the CORS policy and the page has a toast container, and
  rethrows.
\<close>

definition cors_toast :: "js_error \<Rightarrow> client \<Rightarrow> client" where
  "cors_toast err s =
     (if str_includes (message err) ''has been blocked by CORS policy'' \<and> toastContainer s
      then s\<lparr>toasts := Suc (toasts s)\<rparr> else s)"

definition fetchWithCorsHandling ::
  "env \<Rightarrow> request \<Rightarrow> client \<Rightarrow> json result \<times> client \<times> event list" where
  "fetchWithCorsHandling e options s =
     (let corsOptions = options\<lparr>req_cors := True,
            req_headers := AList.update ''Accept'' ''application/json'' (req_headers options)\<rparr>;
          (out, s1, evs) = fetch e corsOptions s;
          r = (case out of
                 Inl err \<Rightarrow> Inl err
               | Inr resp \<Rightarrow>
                   if \<not> ok resp then Inl (Error (''API error: '' @ show_nat (status resp)))
                   else body_json resp)
      in case r of
           Inr data \<Rightarrow> (Inr data, s1, evs)
         | Inl err \<Rightarrow> (Inl err, cors_toast err s1, evs))"


section \<open>Sentences, statistics, contributors\<close>

definition getRandomSentences ::
  "env \<Rightarrow> nat \<Rightarrow> nat list option \<Rightarrow> client \<Rightarrow> json result \<times> client \<times> event list" where
  "getRandomSentences e count excludeIds s =
     (let s1 = showLoading s;
          url = getApiUrl s1 @ ''/sentences/random?count='' @ show_nat count;
          url' = (case excludeIds of
                    None \<Rightarrow> url
                  | Some ids \<Rightarrow>
                      if ids \<noteq> [] then url @ ''&excludeIds='' @ join '','' (map show_nat ids)
                      else url);
          (r, s2, evs) = fetchWithCorsHandling e (plain_get url') s1
      in (r, hideLoading s2, ShowLoading # evs @ [HideLoading]))"

text \<open>
  The body shared by the operations that call \<^verbatim>\<open>fetch\<close> themselves: a response that
  is not ok is thrown as an \<^verbatim>\<open>Error\<close> with the given label and the status, an ok
  response is parsed.
\<close>

definition parse_or_throw :: "string \<Rightarrow> response result \<Rightarrow> json result" where
  "parse_or_throw label out =
     (case out of
        Inl err \<Rightarrow> Inl err
      | Inr resp \<Rightarrow>
          if \<not> ok resp then Inl (Error (label @ show_nat (status resp)))
          else body_json resp)"

definition getSentencesByCategory ::
  "env \<Rightarrow> string \<Rightarrow> nat \<Rightarrow> client \<Rightarrow> json result \<times> client \<times> event list" where
  "getSentencesByCategory e category count s =
     (let s1 = showLoading s;
          (out, s2, evs) = fetch e (plain_get (getApiUrl s1 @ ''/sentences/category/''
             @ encodeURIComponent category @ ''?count='' @ show_nat count)) s1
      in (parse_or_throw ''Error fetching sentences by category: '' out,
          hideLoading s2, ShowLoading # evs @ [HideLoading]))"

definition getSentencesByCategorySimple ::
  "env \<Rightarrow> string \<Rightarrow> nat \<Rightarrow> client \<Rightarrow> json result \<times> client \<times> event list" where
  "getSentencesByCategorySimple e category count s =
     (let s1 = showLoading s;
          (out, s2, evs) = fetch e (plain_get (getApiUrl s1 @ ''/sentences/category-simple/''
             @ encodeURIComponent category @ ''?count='' @ show_nat count)) s1
      in (parse_or_throw ''Error fetching sentences by category: '' out,
          hideLoading s2, ShowLoading # evs @ [HideLoading]))"

definition getSentencesByDifficulty ::
  "env \<Rightarrow> nat \<Rightarrow> nat \<Rightarrow> client \<Rightarrow> json result \<times> client \<times> event list" where
  "getSentencesByDifficulty e level count s =
     (let s1 = showLoading s;
          (out, s2, evs) = fetch e (plain_get (getApiUrl s1 @ ''/sentences/difficulty/''
             @ show_nat level @ ''?count='' @ show_nat count)) s1
      in (parse_or_throw ''Error fetching sentences by difficulty: '' out,
          hideLoading s2, ShowLoading # evs @ [HideLoading]))"

definition getStatistics :: "env \<Rightarrow> client \<Rightarrow> json result \<times> client \<times> event list" where
  "getStatistics e s =
     (let s1 = showLoading s;
          options = \<lparr>req_method = ''GET'', req_url = getApiUrl s1 @ ''/statistics'',
             req_headers = [(''Accept'', ''application/json'')], req_cors = True,
             req_body = NoBody, req_relay = relay_enabled e\<rparr>;
          (out, s2, evs) = fetch e options s1;
          r = (case out of
                 Inl err \<Rightarrow> Inl err
               | Inr resp \<Rightarrow>
                   if \<not> ok resp
                   then Inl (Error (''Error fetching statistics: '' @ show_nat (status resp)
                          @ '' '' @ statusText resp))
                   else body_json resp)
      in (r, hideLoading s2, ShowLoading # evs @ [HideLoading]))"

definition getTopContributors ::
  "env \<Rightarrow> nat \<Rightarrow> client \<Rightarrow> json result \<times> client \<times> event list" where
  "getTopContributors e limit s =
     (let s1 = showLoading s;
          (out, s2, evs) = fetch e (plain_get (getApiUrl s1 @ ''/contributors/top?limit=''
             @ show_nat limit)) s1;
          r = (case out of
                 Inl err \<Rightarrow> Inl err
               | Inr resp \<Rightarrow>
                   if \<not> ok resp then
                     (case body_text resp of
                        Inl err \<Rightarrow> Inl err
                      | Inr errorText \<Rightarrow>
                          Inl (Error (''API error: '' @ show_nat (status resp) @ '' ''
                            @ statusText resp)))
                   else body_json resp)
      in (r, hideLoading s2, ShowLoading # evs @ [HideLoading]))"

section \<open>Submitting a contribution\<close>

text \<open>The extension chosen from the blob's media type (the empty string when none is declared).\<close>

definition fileExtension :: "string \<Rightarrow> string" where
  "fileExtension ty =
     (if ty \<noteq> [] then
        (if str_includes ty ''mpeg'' \<or> str_includes ty ''mp3'' then ''mp3''
         else if str_includes ty ''webm'' then ''webm''
         else ''wav'')
      else ''wav'')"

definition KreyolText_field :: string where
  "KreyolText_field = ''Krey'' @ [CHR 0xC3, CHR 0xB2] @ ''lText''"

definition formData :: "string \<Rightarrow> blob \<Rightarrow> string \<Rightarrow> string \<Rightarrow> string \<Rightarrow> (string \<times> form_value) list" where
  "formData text audioBlob email gender region =
     [(KreyolText_field, FText text),
      (''AudioFile'', FFile audioBlob (''recording.'' @ fileExtension (blob_type audioBlob)))]
     @ (if email \<noteq> [] then [(''Email'', FText email)] else [])
     @ (if gender \<noteq> [] then [(''Gender'', FText gender)] else [])
     @ (if region \<noteq> [] then [(''Region'', FText region)] else [])"

text \<open>
  What the function does with the value that \<open>fetchWithCorsHandling\<close> returned. That
  value is the parsed body, not a response object: \<^verbatim>\<open>response.ok\<close> is a property read
  on JSON, and neither \<^verbatim>\<open>response.text\<close> nor \<^verbatim>\<open>response.json\<close> is a function there,
  whatever the body holds.
\<close>

definition read_submitted :: "json \<Rightarrow> json result" where
  "read_submitted response =
     (case get_prop response ''ok'' of
        Inl err \<Rightarrow> Inl err
      | Inr okv \<Rightarrow>
          if \<not> truthy_opt okv then Inl (TypeError ''response.text is not a function'')
          else Inl (TypeError ''response.json is not a function''))"

definition submitContribution ::
  "env \<Rightarrow> string \<Rightarrow> blob option \<Rightarrow> string \<Rightarrow> string \<Rightarrow> string \<Rightarrow> client
     \<Rightarrow> json result \<times> client \<times> event list" where
  "submitContribution e text audioBlob email gender region s =
     (let s1 = showLoading s in
      case audioBlob of
        None \<Rightarrow>
          (Inl (Error ''Invalid audio recording: The audio blob is empty or undefined.''),
           hideLoading s1, [ShowLoading, HideLoading])
      | Some b \<Rightarrow>
          if blob_size b = 0 then
            (Inl (Error ''Invalid audio recording: The audio blob is empty or undefined.''),
             hideLoading s1, [ShowLoading, HideLoading])
          else
            (let options = \<lparr>req_method = ''POST'', req_url = getApiUrl s1 @ ''/contributions'',
                   req_headers = [], req_cors = False,
                   req_body = FormData (formData text b email gender region),
                   req_relay = False\<rparr>;
                 (fetched, s2, evs) = fetchWithCorsHandling e options s1;
                 r = (case fetched of Inl err \<Rightarrow> Inl err | Inr response \<Rightarrow> read_submitted response)
             in (r, hideLoading s2, ShowLoading # evs @ [HideLoading])))"


section \<open>Listing contributions\<close>

text \<open>
  \<^verbatim>\<open>getProxiedUrl(url)\<close>, with \<open>base\<close> the value of \<^verbatim>\<open>getApiUrl()\<close>. A string has the
  substring test; an array has \<^verbatim>\<open>includes\<close> too, as a membership test, and is turned
  into a string by the encoder; any other truthy value has no \<^verbatim>\<open>includes\<close>.
\<close>

definition getProxiedUrl :: "string \<Rightarrow> json \<Rightarrow> json result" where
  "getProxiedUrl base url =
     (if \<not> truthy url then Inr url
      else case url of
        JStr u \<Rightarrow>
          Inr (if str_includes u ''blob.core.windows.net''
               then JStr (base @ ''/api/proxy-audio?url='' @ encodeURIComponent u)
               else url)
      | JArr xs \<Rightarrow>
          Inr (if JStr ''blob.core.windows.net'' \<in> set xs
               then JStr (base @ ''/api/proxy-audio?url='' @ encodeURIComponent (js_to_string url))
               else url)
      | _ \<Rightarrow> Inl (TypeError ''url.includes is not a function''))"

text \<open>Assignment to a property of an object: the entry is replaced where it stands.\<close>

fun set_prop :: "json \<Rightarrow> string \<Rightarrow> json \<Rightarrow> json" where
  "set_prop (JObj kvs) k v = JObj (AList.update k v kvs)"
| "set_prop j k v = j"

text \<open>The callback given to \<^verbatim>\<open>data.items.map\<close>.\<close>

definition proxy_item :: "string \<Rightarrow> json \<Rightarrow> json result" where
  "proxy_item base contribution =
     (case get_prop contribution ''audioUrl'' of
        Inl err \<Rightarrow> Inl err
      | Inr None \<Rightarrow> Inr contribution
      | Inr (Some a) \<Rightarrow>
          if truthy a then
            (case getProxiedUrl base a of
               Inl err \<Rightarrow> Inl err
             | Inr a' \<Rightarrow> Inr (set_prop contribution ''audioUrl'' a'))
          else Inr contribution)"

text \<open>\<^verbatim>\<open>Array.prototype.map\<close> with a callback that may throw: the first throw ends it.\<close>

fun map_result :: "('a \<Rightarrow> 'b result) \<Rightarrow> 'a list \<Rightarrow> ('b list) result" where
  "map_result f [] = Inr []"
| "map_result f (x # xs) =
     (case f x of
        Inl err \<Rightarrow> Inl err
      | Inr y \<Rightarrow> (case map_result f xs of Inl err \<Rightarrow> Inl err | Inr ys \<Rightarrow> Inr (y # ys)))"

text \<open>The post-processing of the fetched page.\<close>

definition proxy_items :: "string \<Rightarrow> json \<Rightarrow> json result" where
  "proxy_items base data =
     (if \<not> truthy data then Inr data
      else case get_prop data ''items'' of
        Inl err \<Rightarrow> Inl err
      | Inr None \<Rightarrow> Inr data
      | Inr (Some items) \<Rightarrow>
          if \<not> truthy items then Inr data
          else (case items of
                  JArr xs \<Rightarrow>
                    (case map_result (proxy_item base) xs of
                       Inl err \<Rightarrow> Inl err
                     | Inr ys \<Rightarrow> Inr (set_prop data ''items'' (JArr ys)))
                | _ \<Rightarrow> Inl (TypeError ''data.items.map is not a function'')))"

text \<open>
  The catch block returns the promise of the recursive call without awaiting it, so the
  \<^verbatim>\<open>finally\<close> block of the outer call runs as soon as the inner call has suspended at
  its \<^verbatim>\<open>fetch\<close>: the outer \<^verbatim>\<open>hideLoading()\<close> comes before that request settles.
\<close>

fun hide_after_suspend :: "event list \<Rightarrow> event list" where
  "hide_after_suspend [] = [HideLoading]"
| "hide_after_suspend (Settle # evs) = HideLoading # Settle # evs"
| "hide_after_suspend (ev # evs) = ev # hide_after_suspend evs"

definition contributions_url :: "client \<Rightarrow> nat \<Rightarrow> nat \<Rightarrow> bool \<Rightarrow> string" where
  "contributions_url s page pageSize includeUnapproved =
     getApiUrl s @ ''/contributions?page='' @ show_nat page @ ''&pageSize='' @ show_nat pageSize
       @ (if includeUnapproved then ''&includeUnapproved=true'' else [])"

lemma fetchWithCorsHandling_flag:
  "fetchWithCorsHandling e req s = (r, s', evs) \<Longrightarrow> usingFallbackUrl s' = usingFallbackUrl s"
  by (auto simp: fetchWithCorsHandling_def fetch_def cors_toast_def Let_def
      split: sum.splits if_splits prod.splits)

function getContributions ::
  "env \<Rightarrow> nat \<Rightarrow> nat \<Rightarrow> bool \<Rightarrow> client \<Rightarrow> json result \<times> client \<times> event list" where
  "getContributions e page pageSize includeUnapproved s =
     (let s1 = showLoading s;
          (fetched, s2, evs) = fetchWithCorsHandling e
             (plain_get (contributions_url s1 page pageSize includeUnapproved)) s1;
          r = (case fetched of Inl err \<Rightarrow> Inl err | Inr data \<Rightarrow> proxy_items (getApiUrl s2) data)
      in case r of
           Inr data \<Rightarrow> (Inr data, hideLoading s2, ShowLoading # evs @ [HideLoading])
         | Inl err \<Rightarrow>
             if \<not> usingFallbackUrl s2 \<and> str_includes (message err) ''API error'' then
               (let (r', s3, evs') = getContributions e page pageSize False
                      (s2\<lparr>usingFallbackUrl := True\<rparr>)
                in (r', s3, ShowLoading # evs @ hide_after_suspend evs'))
             else (Inl err, hideLoading s2, ShowLoading # evs @ [HideLoading]))"
  by pat_completeness auto
termination
  apply (relation "measure (\<lambda>(e, page, pageSize, includeUnapproved, s). if usingFallbackUrl s then 0 else 1)")
   apply simp
  apply (auto simp: showLoading_def dest!: fetchWithCorsHandling_flag[OF sym])
  done


declare getContributions.simps [simp del]

definition getContributionById ::
  "env \<Rightarrow> nat \<Rightarrow> client \<Rightarrow> json result \<times> client \<times> event list" where
  "getContributionById e ident s =
     (let s1 = showLoading s;
          (r, s2, evs) = fetchWithCorsHandling e
             (plain_get (getApiUrl s1 @ ''/contributions/'' @ show_nat ident)) s1
      in (r, hideLoading s2, ShowLoading # evs @ [HideLoading]))"

section \<open>Prize eligibility\<close>

record eligibility =
  eligible :: bool
  elig_message :: string
  contributionCount :: json
  laptopEligible :: bool
  tshirtEligible :: bool

text \<open>
  \<^verbatim>\<open>contributors.find((c) => c.email === email)\<close>: the first element whose \<^verbatim>\<open>email\<close> is
  that string; \<open>None\<close> is \<^verbatim>\<open>undefined\<close>.
\<close>

fun find_email :: "json list \<Rightarrow> string \<Rightarrow> (json option) result" where
  "find_email [] email = Inr None"
| "find_email (c # cs) email =
     (case get_prop c ''email'' of
        Inl err \<Rightarrow> Inl err
      | Inr v \<Rightarrow> if v = Some (JStr email) then Inr (Some c) else find_email cs email)"

definition array_find_email :: "json \<Rightarrow> string \<Rightarrow> (json option) result" where
  "array_find_email contributors email =
     (case contributors of
        JArr cs \<Rightarrow> find_email cs email
      | JNull \<Rightarrow> Inl (TypeError (''Cannot read properties of null (reading ''
                   @ [CHR 0x27] @ ''find'' @ [CHR 0x27] @ '')''))
      | _ \<Rightarrow> Inl (TypeError ''contributors.find is not a function''))"

text \<open>The numeric value of a JSON value in a comparison or a subtraction; \<open>None\<close> is NaN.\<close>

fun to_number :: "env \<Rightarrow> json \<Rightarrow> int option" where
  "to_number e JNull = Some 0"
| "to_number e (JBool b) = Some (if b then 1 else 0)"
| "to_number e (JNum n) = Some n"
| "to_number e (JStr s) = string_to_number e s"
| "to_number e v = string_to_number e (js_to_string v)"

definition js_ge :: "env \<Rightarrow> json \<Rightarrow> int \<Rightarrow> bool" where
  "js_ge e v k = (case to_number e v of None \<Rightarrow> False | Some n \<Rightarrow> n \<ge> k)"

text \<open>
  The text of \<^verbatim>\<open>${a - b}\<close>. JavaScript subtracts in double precision. When both numbers
  and their difference are safe integers (of magnitude at most \<open>2\<^sup>5\<^sup>3 - 1\<close>) the
  subtraction is exact and the result is printed in plain decimal; otherwise the rounding
  and the printing are the engine's.
\<close>

definition safe_integer :: "int \<Rightarrow> bool" where
  "safe_integer n = (- 9007199254740991 \<le> n \<and> n \<le> 9007199254740991)"

definition minus_text :: "env \<Rightarrow> int \<Rightarrow> int \<Rightarrow> string" where
  "minus_text e a b =
     (if safe_integer a \<and> safe_integer b \<and> safe_integer (a - b) then show_int (a - b)
      else double_minus_text e a b)"

definition eligibility_of :: "env \<Rightarrow> json \<Rightarrow> eligibility result" where
  "eligibility_of e userContribution =
     (case get_prop userContribution ''contributionCount'' of
        Inl err \<Rightarrow> Inl err
      | Inr v \<Rightarrow>
          (let count = (if truthy_opt v then the v else JNum 0);
               laptop = js_ge e count 10000;
               tshirt = js_ge e count 1000
           in Inr \<lparr>eligible = tshirt,
                elig_message =
                  (if laptop then ''Congratulations! You've qualified for a laptop!''
                   else if tshirt then ''You've qualified for a t-shirt and surprise gift!''
                   else ''You need ''
                     @ (case to_number e count of None \<Rightarrow> ''NaN'' | Some n \<Rightarrow> minus_text e 1000 n)
                     @ '' more valid contributions to qualify for a t-shirt''),
                contributionCount = count,
                laptopEligible = laptop,
                tshirtEligible = tshirt\<rparr>))"

definition not_eligible :: "string \<Rightarrow> eligibility" where
  "not_eligible msg = \<lparr>eligible = False, elig_message = msg, contributionCount = JNum 0,
     laptopEligible = False, tshirtEligible = False\<rparr>"

text \<open>The email is \<open>None\<close> when the caller passes \<^verbatim>\<open>null\<close> or \<^verbatim>\<open>undefined\<close>.\<close>

definition checkPrizeEligibility ::
  "env \<Rightarrow> string option \<Rightarrow> client \<Rightarrow> eligibility result \<times> client \<times> event list" where
  "checkPrizeEligibility e email s =
     (case email of
        None \<Rightarrow> (Inr (not_eligible ''Email required for prize eligibility''), s, [])
      | Some em \<Rightarrow>
          if em = [] then (Inr (not_eligible ''Email required for prize eligibility''), s, [])
          else
            (let (r, s1, evs) = getTopContributors e 50 s
             in case r of
                  Inl err \<Rightarrow> (Inl err, s1, evs)
                | Inr contributors \<Rightarrow>
                    (case array_find_email contributors em of
                       Inl err \<Rightarrow> (Inl err, s1, evs)
                     | Inr None \<Rightarrow>
                         (Inr (not_eligible ''No contributions found for this email''), s1, evs)
                     | Inr (Some userContribution) \<Rightarrow>
                         (eligibility_of e userContribution, s1, evs))))"

section \<open>Administrator flag and stored URL\<close>

definition setApiUrl :: "string \<Rightarrow> client \<Rightarrow> bool \<times> client" where
  "setApiUrl url s =
     (if url \<noteq> [] \<and> trim url \<noteq> []
      then (True, s\<lparr>localStorage := (localStorage s)(''palefo-api-url'' \<mapsto> trim url)\<rparr>)
      else (False, s))"

definition authenticateAdmin :: "string \<Rightarrow> string \<Rightarrow> client \<Rightarrow> bool \<times> client" where
  "authenticateAdmin username password s =
     (if username = ''admin'' \<and> password = ''palefo2023''
      then (True, s\<lparr>localStorage := (localStorage s)(''adminAuthenticated'' \<mapsto> ''true'')\<rparr>)
      else (False, s))"

definition isAdminAuthenticated :: "client \<Rightarrow> bool" where
  "isAdminAuthenticated s = (localStorage s ''adminAuthenticated'' = Some ''true'')"

definition logoutAdmin :: "client \<Rightarrow> client" where
  "logoutAdmin s = s\<lparr>localStorage := (localStorage s)(''adminAuthenticated'' := None)\<rparr>"


section \<open>Connection test\<close>

record probe =
  probe_status :: nat
  probe_data :: json

text \<open>
  The report: either the four probes, or, from the outer catch block, the message of the
  error (the stack text of the engine is left out).
\<close>

datatype report =
    Report (rep_apiUrl: string) (rep_statistics: probe) (rep_contributions: probe) (rep_sentences: probe)
      (rep_gemini: probe)
  | ReportError (rep_error: string)

text \<open>\<^verbatim>\<open>response.ok ? await response.json() : "Failed"\<close>\<close>

definition probe_data_of :: "response \<Rightarrow> json result" where
  "probe_data_of resp = (if ok resp then body_json resp else Inr (JStr ''Failed''))"

text \<open>The Gemini probe, with its own try and catch.\<close>

definition gemini_probe :: "response result \<Rightarrow> probe" where
  "gemini_probe out =
     (case out of
        Inl err \<Rightarrow> \<lparr>probe_status = 500, probe_data = JStr (''Error: '' @ message err)\<rparr>
      | Inr resp \<Rightarrow>
          (case probe_data_of resp of
             Inl err \<Rightarrow> \<lparr>probe_status = 500, probe_data = JStr (''Error: '' @ message err)\<rparr>
           | Inr d \<Rightarrow> \<lparr>probe_status = status resp, probe_data = d\<rparr>))"

definition testApiConnection :: "env \<Rightarrow> client \<Rightarrow> report \<times> client \<times> event list" where
  "testApiConnection e s =
     (let currentUrl = getApiUrl s;
          (out1, s1, evs1) = fetch e (plain_get (currentUrl @ ''/statistics'')) s
      in case out1 of
           Inl err \<Rightarrow> (ReportError (message err), s1, evs1)
         | Inr statsResponse \<Rightarrow>
      (case probe_data_of statsResponse of
           Inl err \<Rightarrow> (ReportError (message err), s1, evs1)
         | Inr statsData \<Rightarrow>
      (let (out2, s2, evs2) =
             fetch e (plain_get (currentUrl @ ''/contributions?page=1&pageSize=5'')) s1
       in case out2 of
           Inl err \<Rightarrow> (ReportError (message err), s2, evs1 @ evs2)
         | Inr contribResponse \<Rightarrow>
      (case probe_data_of contribResponse of
           Inl err \<Rightarrow> (ReportError (message err), s2, evs1 @ evs2)
         | Inr contribData \<Rightarrow>
      (let (out3, s3, evs3) =
             fetch e (plain_get (currentUrl @ ''/sentences/random?count=3'')) s2
       in case out3 of
           Inl err \<Rightarrow> (ReportError (message err), s3, evs1 @ evs2 @ evs3)
         | Inr sentencesResponse \<Rightarrow>
      (case probe_data_of sentencesResponse of
           Inl err \<Rightarrow> (ReportError (message err), s3, evs1 @ evs2 @ evs3)
         | Inr sentencesData \<Rightarrow>
      (let (out4, s4, evs4) =
             fetch e (plain_get (currentUrl @ ''/ai/gemini-phrase?difficultyLevel=2'')) s3
       in (Report currentUrl
             \<lparr>probe_status = status statsResponse, probe_data = statsData\<rparr>
             \<lparr>probe_status = status contribResponse, probe_data = contribData\<rparr>
             \<lparr>probe_status = status sentencesResponse, probe_data = sentencesData\<rparr>
             (gemini_probe out4),
           s4, evs1 @ evs2 @ evs3 @ evs4))))))))"

section \<open>Moderation\<close>

record moderation_page =
  mod_items :: "json list"
  mod_page :: nat
  mod_pageSize :: nat
  mod_filter :: string

text \<open>The three callbacks given to \<^verbatim>\<open>contributions.filter\<close>.\<close>

definition is_approved :: "json \<Rightarrow> bool result" where
  "is_approved c =
     (case get_prop c ''isApproved'' of Inl err \<Rightarrow> Inl err | Inr a \<Rightarrow> Inr (truthy_opt a))"

definition is_rejected :: "json \<Rightarrow> bool result" where
  "is_rejected c =
     (case get_prop c ''isApproved'' of
        Inl err \<Rightarrow> Inl err
      | Inr a \<Rightarrow>
          if truthy_opt a then Inr False
          else (case get_prop c ''rejectionReason'' of
                  Inl err \<Rightarrow> Inl err
                | Inr r \<Rightarrow> Inr (truthy_opt r)))"

definition is_pending :: "json \<Rightarrow> bool result" where
  "is_pending c =
     (case get_prop c ''isApproved'' of
        Inl err \<Rightarrow> Inl err
      | Inr a \<Rightarrow>
          if truthy_opt a then Inr False
          else (case get_prop c ''rejectionReason'' of
                  Inl err \<Rightarrow> Inl err
                | Inr r \<Rightarrow> Inr (\<not> truthy_opt r)))"

text \<open>\<^verbatim>\<open>Array.prototype.filter\<close> with a callback that may throw.\<close>

fun filter_result :: "('a \<Rightarrow> bool result) \<Rightarrow> 'a list \<Rightarrow> ('a list) result" where
  "filter_result p [] = Inr []"
| "filter_result p (x # xs) =
     (case p x of
        Inl err \<Rightarrow> Inl err
      | Inr b \<Rightarrow>
          (case filter_result p xs of
             Inl err \<Rightarrow> Inl err
           | Inr ys \<Rightarrow> Inr (if b then x # ys else ys)))"

definition array_filter :: "(json \<Rightarrow> bool result) \<Rightarrow> json \<Rightarrow> (json list) result" where
  "array_filter p contributions =
     (case contributions of
        JArr cs \<Rightarrow> filter_result p cs
      | JNull \<Rightarrow> Inl (TypeError (''Cannot read properties of null (reading ''
                   @ [CHR 0x27] @ ''filter'' @ [CHR 0x27] @ '')''))
      | _ \<Rightarrow> Inl (TypeError ''contributions.filter is not a function''))"

text \<open>The \<^verbatim>\<open>switch\<close> on the filter; \<^verbatim>\<open>"pending"\<close> shares the default branch.\<close>

definition filter_callback :: "string \<Rightarrow> json \<Rightarrow> bool result" where
  "filter_callback filter_name =
     (if filter_name = ''approved'' then is_approved
      else if filter_name = ''rejected'' then is_rejected
      else is_pending)"

text \<open>The filter argument is \<open>None\<close> when the caller omits it: the default is \<^verbatim>\<open>"pending"\<close>.\<close>

definition getContributionsForModeration ::
  "env \<Rightarrow> nat \<Rightarrow> nat \<Rightarrow> string option \<Rightarrow> client
     \<Rightarrow> moderation_page result \<times> client \<times> event list" where
  "getContributionsForModeration e page pageSize filter_arg s =
     (let filter_name = (case filter_arg of None \<Rightarrow> ''pending'' | Some f \<Rightarrow> f);
          s1 = showLoading s;
          queryParams = ''page='' @ show_nat page @ ''&pageSize='' @ show_nat pageSize
             @ ''&includeUnapproved=true'';
          (fetched, s2, evs) = fetchWithCorsHandling e
             (plain_get (getApiUrl s1 @ ''/contributions?'' @ queryParams)) s1;
          r = (case fetched of
                 Inl err \<Rightarrow> Inl err
               | Inr contributions \<Rightarrow>
                   (case array_filter (filter_callback filter_name) contributions of
                      Inl err \<Rightarrow> Inl err
                    | Inr filteredContributions \<Rightarrow>
                        Inr \<lparr>mod_items = filteredContributions, mod_page = page,
                             mod_pageSize = pageSize, mod_filter = filter_name\<rparr>))
      in (r, hideLoading s2, ShowLoading # evs @ [HideLoading]))"

text \<open>A reason is falsy when it is \<^verbatim>\<open>null\<close> (\<open>None\<close>) or the empty string.\<close>

definition reason_truthy :: "string option \<Rightarrow> bool" where
  "reason_truthy rejectionReason = (case rejectionReason of None \<Rightarrow> False | Some r \<Rightarrow> r \<noteq> [])"

definition approval_request :: "client \<Rightarrow> nat \<Rightarrow> bool \<Rightarrow> string option \<Rightarrow> request" where
  "approval_request s ident approved rejectionReason =
     \<lparr>req_method = ''PATCH'',
      req_url = getApiUrl s @ ''/contributions/'' @ show_nat ident @ ''/approval'',
      req_headers = [(''Content-Type'', ''application/json'')], req_cors = False,
      req_body = JsonBody (JObj [(''approved'', JBool approved),
         (''rejectionReason'', case rejectionReason of None \<Rightarrow> JNull | Some r \<Rightarrow> JStr r)]),
      req_relay = False\<rparr>"

definition moderateContribution ::
  "env \<Rightarrow> nat \<Rightarrow> bool \<Rightarrow> string option \<Rightarrow> client \<Rightarrow> json result \<times> client \<times> event list" where
  "moderateContribution e ident approved rejectionReason s =
     (let s1 = showLoading s in
      if \<not> approved \<and> \<not> reason_truthy rejectionReason then
        (Inl (Error ''Rejection reason is required when rejecting a contribution''),
         hideLoading s1, [ShowLoading, HideLoading])
      else
        (let (out, s2, evs) = fetch e (approval_request s1 ident approved rejectionReason) s1
         in (parse_or_throw ''API error: '' out, hideLoading s2,
             ShowLoading # evs @ [HideLoading])))"

section \<open>Generated phrases\<close>

record phrase_options =
  opt_category :: "string option"
  opt_difficultyLevel :: "nat option"
  opt_minWords :: "nat option"
  opt_maxWords :: "nat option"

definition phrase_params :: "phrase_options \<Rightarrow> (string \<times> string) list" where
  "phrase_params options =
     (case opt_category options of
        None \<Rightarrow> []
      | Some c \<Rightarrow> if c \<noteq> [] then [(''category'', c)] else [])
     @ (case opt_difficultyLevel options of None \<Rightarrow> [] | Some n \<Rightarrow> [(''difficultyLevel'', show_nat n)])
     @ (case opt_minWords options of None \<Rightarrow> [] | Some n \<Rightarrow> [(''minWords'', show_nat n)])
     @ (case opt_maxWords options of None \<Rightarrow> [] | Some n \<Rightarrow> [(''maxWords'', show_nat n)])"

definition phrase_url :: "string \<Rightarrow> phrase_options \<Rightarrow> string" where
  "phrase_url endpoint options =
     (let q = serialize_params (phrase_params options)
      in if q \<noteq> [] then endpoint @ ''?'' @ q else endpoint)"

definition getAIGeneratedPhrase ::
  "env \<Rightarrow> phrase_options \<Rightarrow> client \<Rightarrow> json result \<times> client \<times> event list" where
  "getAIGeneratedPhrase e options s =
     (let s1 = showLoading s;
          (out, s2, evs) = fetch e
             (plain_get (phrase_url (getApiUrl s1 @ ''/ai/random-phrase'') options)) s1;
          r = (case out of
                 Inl err \<Rightarrow> Inl err
               | Inr resp \<Rightarrow>
                   if \<not> ok resp then
                     (case body_text resp of
                        Inl err \<Rightarrow> Inl err
                      | Inr errorText \<Rightarrow>
                          Inl (Error (''Error fetching AI-generated phrase: ''
                            @ show_nat (status resp))))
                   else body_json resp)
      in (r, hideLoading s2, ShowLoading # evs @ [HideLoading]))"

definition getGeminiPhrase ::
  "env \<Rightarrow> phrase_options \<Rightarrow> client \<Rightarrow> json result \<times> client \<times> event list" where
  "getGeminiPhrase e options s =
     (let s1 = showLoading s;
          (out, s2, evs) = fetch e
             (plain_get (phrase_url (getApiUrl s1 @ ''/ai/gemini-phrase'') options)) s1;
          r = (case out of
                 Inl err \<Rightarrow> Inl err
               | Inr resp \<Rightarrow>
                   if \<not> ok resp then
                     (case body_text resp of
                        Inl err \<Rightarrow> Inl err
                      | Inr errorText \<Rightarrow>
                          Inl (Error (''Error fetching Gemini-generated phrase: ''
                            @ show_nat (status resp))))
                   else body_json resp)
      in (r, hideLoading s2, ShowLoading # evs @ [HideLoading]))"


section \<open>The operations of the service object\<close>

datatype op_call =
    GetApiUrl
  | SetApiUrl string
  | GetRandomSentences nat "nat list option"
  | GetSentencesByCategory string nat
  | GetSentencesByCategorySimple string nat
  | GetSentencesByDifficulty nat nat
  | GetStatistics
  | GetTopContributors nat
  | SubmitContribution string "blob option" string string string
  | GetContributions nat nat bool
  | GetContributionById nat
  | CheckPrizeEligibility "string option"
  | AuthenticateAdmin string string
  | IsAdminAuthenticated
  | LogoutAdmin
  | TestApiConnection
  | GetContributionsForModeration nat nat "string option"
  | ModerateContribution nat bool "string option"
  | GetAIGeneratedPhrase phrase_options
  | GetGeminiPhrase phrase_options

datatype op_result =
    RJson json
  | REligibility eligibility
  | RReport report
  | RModeration moderation_page
  | RBool bool
  | RString string
  | RUnit

definition returning ::
  "('a \<Rightarrow> op_result) \<Rightarrow> 'a result \<times> client \<times> event list
     \<Rightarrow> op_result result \<times> client \<times> event list" where
  "returning wrap out = (case out of (r, s', evs) \<Rightarrow> (map_sum id wrap r, s', evs))"

fun run :: "env \<Rightarrow> op_call \<Rightarrow> client \<Rightarrow> op_result result \<times> client \<times> event list" where
  "run e GetApiUrl s = (Inr (RString (getApiUrl s)), s, [])"
| "run e (SetApiUrl url) s = (case setApiUrl url s of (b, s') \<Rightarrow> (Inr (RBool b), s', []))"
| "run e (GetRandomSentences count excludeIds) s =
     returning RJson (getRandomSentences e count excludeIds s)"
| "run e (GetSentencesByCategory category count) s =
     returning RJson (getSentencesByCategory e category count s)"
| "run e (GetSentencesByCategorySimple category count) s =
     returning RJson (getSentencesByCategorySimple e category count s)"
| "run e (GetSentencesByDifficulty level count) s =
     returning RJson (getSentencesByDifficulty e level count s)"
| "run e GetStatistics s = returning RJson (getStatistics e s)"
| "run e (GetTopContributors limit) s = returning RJson (getTopContributors e limit s)"
| "run e (SubmitContribution text audioBlob email gender region) s =
     returning RJson (submitContribution e text audioBlob email gender region s)"
| "run e (GetContributions page pageSize includeUnapproved) s =
     returning RJson (getContributions e page pageSize includeUnapproved s)"
| "run e (GetContributionById ident) s = returning RJson (getContributionById e ident s)"
| "run e (CheckPrizeEligibility email) s =
     returning REligibility (checkPrizeEligibility e email s)"
| "run e (AuthenticateAdmin username password) s =
     (case authenticateAdmin username password s of (b, s') \<Rightarrow> (Inr (RBool b), s', []))"
| "run e IsAdminAuthenticated s = (Inr (RBool (isAdminAuthenticated s)), s, [])"
| "run e LogoutAdmin s = (Inr RUnit, logoutAdmin s, [])"
| "run e TestApiConnection s =
     (case testApiConnection e s of (rep, s', evs) \<Rightarrow> (Inr (RReport rep), s', evs))"
| "run e (GetContributionsForModeration page pageSize filter_arg) s =
     returning RModeration (getContributionsForModeration e page pageSize filter_arg s)"
| "run e (ModerateContribution ident approved rejectionReason) s =
     returning RJson (moderateContribution e ident approved rejectionReason s)"
| "run e (GetAIGeneratedPhrase options) s = returning RJson (getAIGeneratedPhrase e options s)"
| "run e (GetGeminiPhrase options) s = returning RJson (getGeminiPhrase e options s)"

section \<open>Reading an event list\<close>

fun requests_of :: "event list \<Rightarrow> request list" where
  "requests_of [] = []"
| "requests_of (Issue req # evs) = req # requests_of evs"
| "requests_of (ev # evs) = requests_of evs"

text \<open>
  \<open>issued_under_loading l evs\<close>: starting with the loading flag at \<open>l\<close>, every request of
  \<open>evs\<close> is issued at a moment when the flag is set.
\<close>

fun issued_under_loading :: "bool \<Rightarrow> event list \<Rightarrow> bool" where
  "issued_under_loading l [] = True"
| "issued_under_loading l (ShowLoading # evs) = issued_under_loading True evs"
| "issued_under_loading l (HideLoading # evs) = issued_under_loading False evs"
| "issued_under_loading l (Issue req # evs) = (l \<and> issued_under_loading l evs)"
| "issued_under_loading l (Settle # evs) = issued_under_loading l evs"

text \<open>
  \<open>in_flight_covered l n evs\<close>: starting with the flag at \<open>l\<close> and \<open>n\<close> requests in
  flight, the flag is set at every moment of \<open>evs\<close> at which a request is in flight.
\<close>

fun in_flight_covered :: "bool \<Rightarrow> nat \<Rightarrow> event list \<Rightarrow> bool" where
  "in_flight_covered l n [] = True"
| "in_flight_covered l n (ShowLoading # evs) = in_flight_covered True n evs"
| "in_flight_covered l n (HideLoading # evs) = (n = 0 \<and> in_flight_covered False n evs)"
| "in_flight_covered l n (Issue req # evs) = (l \<and> in_flight_covered l (Suc n) evs)"
| "in_flight_covered l n (Settle # evs) = in_flight_covered l (n - 1) evs"

text \<open>Reading a property of a value that is not \<^verbatim>\<open>null\<close>.\<close>

definition field :: "json \<Rightarrow> string \<Rightarrow> json option" where
  "field c k = (case get_prop c k of Inl err \<Rightarrow> None | Inr v \<Rightarrow> v)"


section \<open>Example worlds\<close>

text \<open>The state of a freshly loaded module on a page with a toast container.\<close>

definition fresh_client :: client where
  "fresh_client = \<lparr>usingFallbackUrl = False, loading = False, localStorage = Map.empty,
     toastContainer = True, toasts = 0, issued = 0\<rparr>"

definition json_response :: "nat \<Rightarrow> json \<Rightarrow> response" where
  "json_response code j = \<lparr>status = code, statusText = [], body_text = Inr [], body_json = Inr j\<rparr>"

definition text_response :: "nat \<Rightarrow> string \<Rightarrow> response" where
  "text_response code t = \<lparr>status = code, statusText = [], body_text = Inr t,
     body_json = Inl (JsError ''SyntaxError'' ''Unexpected token'')\<rparr>"

text \<open>
  A world that answers the \<open>n\<close>-th request with the \<open>n\<close>-th entry of a script, and rejects
  every later request the way a browser does when the server cannot be reached. Its two
  number conversions are trivial; no example below consults them.
\<close>

definition scripted :: "response result list \<Rightarrow> env" where
  "scripted outs = \<lparr>net = (\<lambda>n req. if n < length outs then outs ! n
                                   else Inl (TypeError ''Failed to fetch'')),
     relay_enabled = False, string_to_number = (\<lambda>s. None),
     double_minus_text = (\<lambda>a b. [])\<rparr>"

text \<open>Worlds and values used in the examples below.\<close>

definition empty_page :: json where
  "empty_page = JObj [(''items'', JArr [])]"


definition four_ok_world :: env where
  "four_ok_world = scripted [Inr (json_response 200 JNull), Inr (json_response 200 JNull),
     Inr (json_response 200 JNull), Inr (json_response 200 JNull)]"

definition retry_world :: env where
  "retry_world = scripted [Inr (text_response 500 []), Inr (json_response 200 empty_page)]"

definition failing_contributors_run :: "op_result result \<times> client \<times> event list" where
  "failing_contributors_run =
     run (scripted [Inr (text_response 500 ''boom'')]) (GetTopContributors 10) fresh_client"

definition created_contribution :: json where
  "created_contribution = JObj [(''id'', JNum 42),
     (''audioUrl'', JStr ''https://example.org/recording.webm''), (''isApproved'', JBool False)]"

definition webm_blob :: blob where
  "webm_blob = \<lparr>blob_size = 2048, blob_type = ''audio/webm''\<rparr>"

definition azure_page :: json where
  "azure_page = JObj [(''items'', JArr [
       JObj [(''id'', JNum 1), (''audioUrl'', JStr ''https://palefo.blob.core.windows.net/audio/1.wav'')],
       JObj [(''id'', JNum 2), (''audioUrl'', JStr ''https://example.org/2.wav'')],
       JObj [(''id'', JNum 3)]]),
     (''totalCount'', JNum 3)]"

definition azure_world :: env where
  "azure_world = scripted [Inr (json_response 200 azure_page)]"


definition stats_down_world :: env where
  "stats_down_world = scripted [Inl (TypeError ''Failed to fetch''),
     Inr (json_response 200 JNull), Inr (json_response 200 JNull), Inr (json_response 200 JNull)]"

definition mixed_world :: env where
  "mixed_world = scripted [Inr (json_response 200 (JObj [(''totalContributions'', JNum 12)])),
     Inr (text_response 404 ''Not Found''), Inr (json_response 200 (JArr [])),
     Inl (TypeError ''Failed to fetch'')]"

definition top_three :: json where
  "top_three = JArr [
     JObj [(''email'', JStr ''a@palefo.ht''), (''contributionCount'', JNum 10000)],
     JObj [(''email'', JStr ''b@palefo.ht''), (''contributionCount'', JNum 1000)],
     JObj [(''email'', JStr ''c@palefo.ht''), (''contributionCount'', JNum 999)]]"

definition top_world :: env where
  "top_world = scripted [Inr (json_response 200 top_three)]"

definition moderation_list :: "json list" where
  "moderation_list = [
     JObj [(''id'', JNum 1), (''isApproved'', JBool True)],
     JObj [(''id'', JNum 2), (''isApproved'', JBool False), (''rejectionReason'', JStr ''noisy'')],
     JObj [(''id'', JNum 3), (''isApproved'', JBool False), (''rejectionReason'', JNull)]]"

definition moderation_world :: env where
  "moderation_world = scripted [Inr (json_response 200 (JArr moderation_list))]"

text \<open>
  Two calls that overlap: the second starts while the first is suspended at its
  \<^verbatim>\<open>fetch\<close>, and the first completes before the request of the second settles.
\<close>

definition overlapped :: "event list \<Rightarrow> event list \<Rightarrow> event list" where
  "overlapped a b =
     takeWhile (\<lambda>ev. ev \<noteq> Settle) a @ takeWhile (\<lambda>ev. ev \<noteq> Settle) b
       @ dropWhile (\<lambda>ev. ev \<noteq> Settle) a @ dropWhile (\<lambda>ev. ev \<noteq> Settle) b"

section \<open>The shapes of a run\<close>

text \<open>
  What one call of an operation other than the connection test can leave behind: nothing
  observable; the loading flag going up and down around a validation failure; one
  request, to the current base URL, between the flag going up and down; or, in
  \<open>getContributions\<close>, a request to the configured base URL followed by the switch and a
  request to the fallback base URL.
\<close>

definition run_shape :: "client \<Rightarrow> client \<Rightarrow> event list \<Rightarrow> bool" where
  "run_shape s s' evs \<longleftrightarrow>
     (evs = [] \<and> usingFallbackUrl s' = usingFallbackUrl s \<and> loading s' = loading s)
   \<or> (evs = [ShowLoading, HideLoading] \<and> usingFallbackUrl s' = usingFallbackUrl s \<and> \<not> loading s')
   \<or> (\<exists>rq. evs = [ShowLoading, Issue rq, Settle, HideLoading]
          \<and> prefix (getApiUrl s) (req_url rq)
          \<and> usingFallbackUrl s' = usingFallbackUrl s \<and> \<not> loading s')
   \<or> (\<exists>r1 r2. evs = [ShowLoading, Issue r1, Settle, ShowLoading, Issue r2, HideLoading, Settle,
                       HideLoading]
          \<and> \<not> usingFallbackUrl s \<and> usingFallbackUrl s'
          \<and> prefix API_BASE_URL (req_url r1) \<and> prefix API_BASE_URLS_local (req_url r2)
          \<and> \<not> loading s')"

section \<open>The message of an eligibility result\<close>

text \<open>The message that goes with a contribution count \<open>n\<close> that is not negative.\<close>

definition prize_message :: "int \<Rightarrow> string" where
  "prize_message n =
     (if n \<ge> 10000 then ''Congratulations! You've qualified for a laptop!''
      else if n \<ge> 1000 then ''You've qualified for a t-shirt and surprise gift!''
      else ''You need '' @ show_int (1000 - n)
        @ '' more valid contributions to qualify for a t-shirt'')"

section \<open>The three moderation states, in the words of the specification\<close>

text \<open>
  A contribution is approved when its \<^verbatim>\<open>isApproved\<close> is true, rejected when it is not
  approved and has a rejection reason, pending when it is not approved and has none.
  ``True'' and ``has'' are JavaScript truthiness: a reason that is \<^verbatim>\<open>null\<close>, missing or
  the empty string is no reason.
\<close>

definition approved_bucket :: "json \<Rightarrow> bool" where
  "approved_bucket c = truthy_opt (field c ''isApproved'')"

definition rejected_bucket :: "json \<Rightarrow> bool" where
  "rejected_bucket c =
     (\<not> truthy_opt (field c ''isApproved'') \<and> truthy_opt (field c ''rejectionReason''))"

definition pending_bucket :: "json \<Rightarrow> bool" where
  "pending_bucket c =
     (\<not> truthy_opt (field c ''isApproved'') \<and> \<not> truthy_opt (field c ''rejectionReason''))"

section \<open>Strings: agreement with the library's notion of a contiguous sublist\<close>

lemma starts_with_prefix: "starts_with s sub \<longleftrightarrow> prefix sub s"
  by (induction s sub rule: starts_with.induct) auto

lemma str_includes_sublist: "str_includes s sub \<longleftrightarrow> sublist sub s"
  by (induction s) (auto simp: starts_with_prefix sublist_Cons_right)

section \<open>The file extension of a submitted recording\<close>

lemma fileExtension_cases:
  "fileExtension ty =
     (if str_includes ty ''mpeg'' \<or> str_includes ty ''mp3'' then ''mp3''
      else if str_includes ty ''webm'' then ''webm'' else ''wav'')"
  unfolding fileExtension_def by (cases ty) simp_all

lemma submit_request_body:
  "blob_size b \<noteq> 0 \<Longrightarrow>
     map req_body (requests_of (snd (snd (submitContribution e text (Some b) email gender region s))))
       = [FormData (formData text b email gender region)]"
  by (simp add: submitContribution_def fetchWithCorsHandling_def fetch_def
      Let_def split: sum.splits prod.splits)

lemma formData_AudioFile:
  "map_of (formData text b email gender region) ''AudioFile''
     = Some (FFile b (''recording.'' @ fileExtension (blob_type b)))"
  unfolding formData_def KreyolText_field_def by simp

text \<open>
  Claim C7. The extension depends on the declared media type of the blob and on nothing
  else: a type containing \<^verbatim>\<open>mpeg\<close> or \<^verbatim>\<open>mp3\<close> gives \<^verbatim>\<open>mp3\<close>; a type containing
  \<^verbatim>\<open>webm\<close> and neither of those gives \<^verbatim>\<open>webm\<close>; every other type, the undeclared
  (empty) one included, gives \<^verbatim>\<open>wav\<close>. The one request of a submission with a non-empty
  blob carries the blob under the file name \<^verbatim>\<open>recording.\<close> followed by that extension.
\<close>

theorem fileExtension_by_media_type:
  "(str_includes ty ''mpeg'' \<or> str_includes ty ''mp3'' \<longrightarrow> fileExtension ty = ''mp3'')
   \<and> (str_includes ty ''webm'' \<and> \<not> str_includes ty ''mpeg'' \<and> \<not> str_includes ty ''mp3''
        \<longrightarrow> fileExtension ty = ''webm'')
   \<and> (\<not> str_includes ty ''mpeg'' \<and> \<not> str_includes ty ''mp3'' \<and> \<not> str_includes ty ''webm''
        \<longrightarrow> fileExtension ty = ''wav'')
   \<and> fileExtension [] = ''wav''
   \<and> (blob_size b \<noteq> 0 \<longrightarrow>
        map req_body (requests_of (snd (snd (submitContribution e text (Some b) email gender region s))))
          = [FormData (formData text b email gender region)]
        \<and> map_of (formData text b email gender region) ''AudioFile''
          = Some (FFile b (''recording.'' @ fileExtension (blob_type b))))"
proof -
  have "fileExtension [] = ''wav''"
    by (simp add: fileExtension_def)
  then show ?thesis
    by (simp add: fileExtension_cases submit_request_body formData_AudioFile)
qed

theorem fileExtension_by_media_type_witness:
  "fileExtension ''audio/mpeg'' = ''mp3'' \<and> fileExtension ''audio/mp3'' = ''mp3''
   \<and> fileExtension ''audio/webm;codecs=opus'' = ''webm''
   \<and> fileExtension ''audio/ogg'' = ''wav''
   \<and> map_of (formData ''bonjou'' \<lparr>blob_size = 2048, blob_type = ''audio/webm''\<rparr> [] [] [])
        ''AudioFile''
      = Some (FFile \<lparr>blob_size = 2048, blob_type = ''audio/webm''\<rparr> ''recording.webm'')"
  using fileExtension_by_media_type [of "''audio/mpeg''"]
    fileExtension_by_media_type [of "''audio/mp3''"]
    fileExtension_by_media_type [of "''audio/webm;codecs=opus''"]
    fileExtension_by_media_type [of "''audio/ogg''"]
    fileExtension_by_media_type [of "''audio/webm''" "\<lparr>blob_size = 2048, blob_type = ''audio/webm''\<rparr>"
      "scripted []" "''bonjou''" "[]" "[]" "[]" fresh_client]
  by simp

section \<open>Moderating a contribution\<close>

text \<open>
  Claim C8. Rejecting (\<open>approved\<close> false) without a rejection reason, that is with
  \<^verbatim>\<open>null\<close> or the empty string, fails with the validation error for every identifier,
  and no request is issued: the only events are the loading flag going up and down.
  With \<open>approved\<close> true the reason is never looked at: whatever it is, the approval
  request is issued and the outcome is that of the request.
\<close>

theorem moderateContribution_requires_reason:
  "(\<not> reason_truthy rejectionReason \<longrightarrow>
      moderateContribution e ident False rejectionReason s =
        (Inl (Error ''Rejection reason is required when rejecting a contribution''),
         s\<lparr>loading := False\<rparr>, [ShowLoading, HideLoading]))
   \<and> requests_of (snd (snd (moderateContribution e ident True rejectionReason s)))
       = [approval_request (showLoading s) ident True rejectionReason]
   \<and> fst (moderateContribution e ident True rejectionReason s)
       = parse_or_throw ''API error: ''
           (net e (issued s) (approval_request (showLoading s) ident True rejectionReason))"
  by (simp add: moderateContribution_def showLoading_def hideLoading_def fetch_def Let_def
      split: prod.splits)

theorem moderateContribution_requires_reason_witness:
  "\<not> reason_truthy None
   \<and> moderateContribution (scripted [Inr (json_response 200 JNull)]) 7 False None fresh_client =
       (Inl (Error ''Rejection reason is required when rejecting a contribution''),
        fresh_client\<lparr>loading := False\<rparr>, [ShowLoading, HideLoading])
   \<and> fst (moderateContribution (scripted [Inr (json_response 200 (JBool True))]) 7 True None
        fresh_client) = Inr (JBool True)"
  using moderateContribution_requires_reason
    [of None "scripted [Inr (json_response 200 JNull)]" 7 fresh_client]
    moderateContribution_requires_reason
    [of None "scripted [Inr (json_response 200 (JBool True))]" 7 fresh_client]
  by (simp add: reason_truthy_def scripted_def json_response_def parse_or_throw_def ok_def
      fresh_client_def)

section \<open>Shapes of the runs of each operation\<close>

lemma fetch_shape:
  "fetch e req s = (out, s', evs) \<Longrightarrow>
     evs = [Issue req, Settle] \<and> usingFallbackUrl s' = usingFallbackUrl s
       \<and> loading s' = loading s \<and> out = net e (issued s) req"
  by (auto simp: fetch_def)

lemma fetchWithCorsHandling_shape:
  "fetchWithCorsHandling e req s = (r, s', evs) \<Longrightarrow>
     \<exists>rq. evs = [Issue rq, Settle] \<and> req_url rq = req_url req
       \<and> usingFallbackUrl s' = usingFallbackUrl s \<and> loading s' = loading s"
  by (auto simp: fetchWithCorsHandling_def fetch_def cors_toast_def Let_def
      split: sum.splits if_splits prod.splits)

lemma getApiUrl_showLoading [simp]: "getApiUrl (showLoading s) = getApiUrl s"
  by (simp add: getApiUrl_def showLoading_def)

lemma flags_showLoading [simp]:
  "usingFallbackUrl (showLoading s) = usingFallbackUrl s" "loading (showLoading s)"
  by (simp_all add: showLoading_def)

lemma flags_hideLoading [simp]:
  "usingFallbackUrl (hideLoading s) = usingFallbackUrl s" "\<not> loading (hideLoading s)"
  by (simp_all add: hideLoading_def)

lemma one_request_shape:
  "evs = [Issue rq, Settle] \<Longrightarrow> prefix (getApiUrl s) (req_url rq) \<Longrightarrow>
   usingFallbackUrl s2 = usingFallbackUrl s \<Longrightarrow>
   run_shape s (hideLoading s2) (ShowLoading # evs @ [HideLoading])"
  by (simp add: run_shape_def)

lemma getRandomSentences_shape:
  "getRandomSentences e count excludeIds s = (r, s', evs) \<Longrightarrow> run_shape s s' evs"
  unfolding getRandomSentences_def Let_def
  by (auto split: prod.splits option.splits if_splits dest!: fetchWithCorsHandling_shape
      intro!: one_request_shape simp: plain_get_def)

lemma getSentencesByCategory_shape:
  "getSentencesByCategory e category count s = (r, s', evs) \<Longrightarrow> run_shape s s' evs"
  unfolding getSentencesByCategory_def Let_def
  by (auto split: prod.splits dest!: fetch_shape intro!: one_request_shape simp: plain_get_def)

lemma getSentencesByCategorySimple_shape:
  "getSentencesByCategorySimple e category count s = (r, s', evs) \<Longrightarrow> run_shape s s' evs"
  unfolding getSentencesByCategorySimple_def Let_def
  by (auto split: prod.splits dest!: fetch_shape intro!: one_request_shape simp: plain_get_def)

lemma getSentencesByDifficulty_shape:
  "getSentencesByDifficulty e level count s = (r, s', evs) \<Longrightarrow> run_shape s s' evs"
  unfolding getSentencesByDifficulty_def Let_def
  by (auto split: prod.splits dest!: fetch_shape intro!: one_request_shape simp: plain_get_def)

lemma getStatistics_shape:
  "getStatistics e s = (r, s', evs) \<Longrightarrow> run_shape s s' evs"
  unfolding getStatistics_def Let_def
  by (auto split: prod.splits dest!: fetch_shape intro!: one_request_shape)

lemma getTopContributors_shape:
  "getTopContributors e limit s = (r, s', evs) \<Longrightarrow> run_shape s s' evs"
  unfolding getTopContributors_def Let_def
  by (auto split: prod.splits dest!: fetch_shape intro!: one_request_shape simp: plain_get_def)

lemma getContributionById_shape:
  "getContributionById e ident s = (r, s', evs) \<Longrightarrow> run_shape s s' evs"
  unfolding getContributionById_def Let_def
  by (auto split: prod.splits dest!: fetchWithCorsHandling_shape
      intro!: one_request_shape simp: plain_get_def)

lemma getContributionsForModeration_shape:
  "getContributionsForModeration e page pageSize filter_arg s = (r, s', evs) \<Longrightarrow> run_shape s s' evs"
  unfolding getContributionsForModeration_def Let_def
  by (auto split: prod.splits dest!: fetchWithCorsHandling_shape
      intro!: one_request_shape simp: plain_get_def)

lemma prefix_phrase_url: "prefix base (phrase_url (base @ path) options)"
  by (simp add: phrase_url_def Let_def)

lemma getAIGeneratedPhrase_shape:
  "getAIGeneratedPhrase e options s = (r, s', evs) \<Longrightarrow> run_shape s s' evs"
  unfolding getAIGeneratedPhrase_def Let_def
  by (auto split: prod.splits dest!: fetch_shape intro!: one_request_shape
      simp: plain_get_def prefix_phrase_url)

lemma getGeminiPhrase_shape:
  "getGeminiPhrase e options s = (r, s', evs) \<Longrightarrow> run_shape s s' evs"
  unfolding getGeminiPhrase_def Let_def
  by (auto split: prod.splits dest!: fetch_shape intro!: one_request_shape
      simp: plain_get_def prefix_phrase_url)

lemma submitContribution_shape:
  "submitContribution e text audioBlob email gender region s = (r, s', evs) \<Longrightarrow> run_shape s s' evs"
  unfolding submitContribution_def Let_def
  by (auto split: prod.splits option.splits if_splits dest!: fetchWithCorsHandling_shape
      intro!: one_request_shape) (simp add: run_shape_def)+

lemma moderateContribution_shape:
  "moderateContribution e ident approved rejectionReason s = (r, s', evs) \<Longrightarrow> run_shape s s' evs"
  unfolding moderateContribution_def Let_def
  by (auto split: prod.splits if_splits dest!: fetch_shape
      intro!: one_request_shape simp: approval_request_def) (simp add: run_shape_def)+

lemma checkPrizeEligibility_shape:
  "checkPrizeEligibility e email s = (r, s', evs) \<Longrightarrow> run_shape s s' evs"
  unfolding checkPrizeEligibility_def Let_def
  by (auto split: prod.splits option.splits if_splits sum.splits dest!: getTopContributors_shape
      simp: run_shape_def)


lemma prefix_contributions_url: "prefix (getApiUrl s) (contributions_url s page pageSize incl)"
  by (simp add: contributions_url_def)

lemma contributions_url_showLoading [simp]:
  "contributions_url (showLoading s) page pageSize incl = contributions_url s page pageSize incl"
  by (simp add: contributions_url_def)

lemma getContributions_on_fallback:
  assumes "usingFallbackUrl s" and "getContributions e page pageSize incl s = (r, s', evs)"
  shows "\<exists>rq. evs = [ShowLoading, Issue rq, Settle, HideLoading]
           \<and> req_url rq = contributions_url s page pageSize incl
           \<and> usingFallbackUrl s' \<and> \<not> loading s'"
proof -
  obtain fetched s2 evs0 where f: "fetchWithCorsHandling e
      (plain_get (contributions_url s page pageSize incl)) (showLoading s) = (fetched, s2, evs0)"
    by (metis prod_cases3)
  from fetchWithCorsHandling_shape [OF f] obtain rq where
    rq: "evs0 = [Issue rq, Settle]" "req_url rq = contributions_url s page pageSize incl"
      "usingFallbackUrl s2" 
    using assms(1) by (auto simp: plain_get_def)
  from assms(2) f rq(3) have "evs = ShowLoading # evs0 @ [HideLoading] \<and> s' = hideLoading s2"
    by (subst (asm) getContributions.simps) (auto simp: Let_def split: sum.splits)
  with rq show ?thesis by simp
qed

lemma getContributions_shape:
  assumes "getContributions e page pageSize incl s = (r, s', evs)"
  shows "run_shape s s' evs"
proof (cases "usingFallbackUrl s")
  case True
  from getContributions_on_fallback [OF True assms] show ?thesis
    by (auto simp: run_shape_def prefix_contributions_url True)
next
  case False
  obtain fetched s2 evs0 where f: "fetchWithCorsHandling e
      (plain_get (contributions_url s page pageSize incl)) (showLoading s) = (fetched, s2, evs0)"
    by (metis prod_cases3)
  from fetchWithCorsHandling_shape [OF f] obtain rq where
    rq: "evs0 = [Issue rq, Settle]" "req_url rq = contributions_url s page pageSize incl"
      "\<not> usingFallbackUrl s2"
    using False by (auto simp: plain_get_def)
  have p1: "prefix API_BASE_URL (req_url rq)"
    using prefix_contributions_url [of s page pageSize incl] False rq(2)
    by (simp add: getApiUrl_def)
  define attempt where "attempt = (case fetched of Inl err \<Rightarrow> Inl err
     | Inr data \<Rightarrow> proxy_items (getApiUrl s2) data)"
  show ?thesis
  proof (cases "\<exists>err. attempt = Inl err \<and> str_includes (message err) ''API error''")
    case retry: True
    obtain r2 s3 evs2 where inner: "getContributions e page pageSize False
        (s2\<lparr>usingFallbackUrl := True\<rparr>) = (r2, s3, evs2)"
      by (metis prod_cases3)
    have flag: "usingFallbackUrl (s2\<lparr>usingFallbackUrl := True\<rparr>)" by simp
    from getContributions_on_fallback [OF flag inner] obtain rq2 where
      rq2: "evs2 = [ShowLoading, Issue rq2, Settle, HideLoading]"
        "req_url rq2 = contributions_url (s2\<lparr>usingFallbackUrl := True\<rparr>) page pageSize False"
        "usingFallbackUrl s3" "\<not> loading s3"
      by blast
    have p2: "prefix API_BASE_URLS_local (req_url rq2)"
      using prefix_contributions_url [of "s2\<lparr>usingFallbackUrl := True\<rparr>" page pageSize False] rq2(2)
      by (simp add: getApiUrl_def)
    from assms f rq(3) retry inner have
      "evs = ShowLoading # evs0 @ hide_after_suspend evs2 \<and> s' = s3"
      by (subst (asm) getContributions.simps)
        (auto simp: Let_def attempt_def split: sum.splits)
    with rq rq2 p1 p2 False show ?thesis
      by (simp add: run_shape_def)
  next
    case no_retry: False
    from assms f rq(3) no_retry have "evs = ShowLoading # evs0 @ [HideLoading] \<and> s' = hideLoading s2"
      by (subst (asm) getContributions.simps)
        (auto simp: Let_def attempt_def split: sum.splits if_splits)
    with rq False show ?thesis
      by (simp add: run_shape_def prefix_contributions_url)
  qed
qed

lemma testApiConnection_events:
  assumes "testApiConnection e s = (rep, s', evs)"
  shows "usingFallbackUrl s' = usingFallbackUrl s \<and> loading s' = loading s
     \<and> (\<forall>rq \<in> set (requests_of evs). prefix (getApiUrl s) (req_url rq))
     \<and> ShowLoading \<notin> set evs \<and> HideLoading \<notin> set evs"
  using assms unfolding testApiConnection_def Let_def fetch_def plain_get_def
  by (auto split: sum.splits prod.splits)

lemma run_shape_all:
  assumes "c \<noteq> TestApiConnection" and "run e c s = (r, s', evs)"
  shows "run_shape s s' evs"
proof (cases c)
  case GetApiUrl
  with assms show ?thesis by (auto simp: run_shape_def)
next
  case (SetApiUrl url)
  with assms show ?thesis by (auto simp: run_shape_def setApiUrl_def split: if_splits)
next
  case (AuthenticateAdmin u p)
  with assms show ?thesis by (auto simp: run_shape_def authenticateAdmin_def split: if_splits)
next
  case IsAdminAuthenticated
  with assms show ?thesis by (auto simp: run_shape_def)
next
  case LogoutAdmin
  with assms show ?thesis by (auto simp: run_shape_def logoutAdmin_def)
next
  case TestApiConnection
  with assms show ?thesis by simp
qed (use assms in \<open>auto simp: returning_def split: prod.splits
      dest: getRandomSentences_shape getSentencesByCategory_shape
        getSentencesByCategorySimple_shape getSentencesByDifficulty_shape getStatistics_shape
        getTopContributors_shape submitContribution_shape getContributions_shape
        getContributionById_shape checkPrizeEligibility_shape
        getContributionsForModeration_shape moderateContribution_shape
        getAIGeneratedPhrase_shape getGeminiPhrase_shape\<close>)

section \<open>The fallback switch\<close>




section \<open>The loading flag\<close>

lemma run_shape_loading:
  assumes "run_shape s s' evs"
  shows "issued_under_loading (loading s) evs
     \<and> (requests_of evs \<noteq> [] \<longrightarrow> hd evs = ShowLoading \<and> last evs = HideLoading \<and> \<not> loading s')
     \<and> (usingFallbackUrl s' = usingFallbackUrl s \<longrightarrow> in_flight_covered (loading s) 0 evs)"
  using assms unfolding run_shape_def by (elim disjE exE conjE) simp_all

text \<open>
  Claim C10, as amended. For every operation other than \<open>testApiConnection\<close>: every
  request is issued at a moment when the loading flag is set; if the call issues a request
  at all, its first event is the flag going up, its last event is the flag going down,
  and the flag is down in the final state, whether the call succeeded or failed. For a
  call that runs alone, that is, with no request of another call in flight when it starts
  and no event of another call between its own, and that does not switch to the fallback
  URL, the flag is set for as long as its request is in flight. \<open>testApiConnection\<close> never
  touches the flag.
\<close>

theorem loading_flag_around_requests:
  assumes "run e c s = (r, s', evs)"
  shows "(c \<noteq> TestApiConnection \<longrightarrow>
            issued_under_loading (loading s) evs
          \<and> (requests_of evs \<noteq> [] \<longrightarrow>
                hd evs = ShowLoading \<and> last evs = HideLoading \<and> \<not> loading s')
          \<and> (usingFallbackUrl s' = usingFallbackUrl s \<longrightarrow> in_flight_covered (loading s) 0 evs))
       \<and> (c = TestApiConnection \<longrightarrow>
            ShowLoading \<notin> set evs \<and> HideLoading \<notin> set evs \<and> loading s' = loading s)"
proof (cases "c = TestApiConnection")
  case True
  with assms obtain rep where "testApiConnection e s = (rep, s', evs)"
    by (auto split: prod.splits)
  from testApiConnection_events [OF this] True show ?thesis
    by simp
next
  case False
  from run_shape_loading [OF run_shape_all [OF False assms]] False show ?thesis
    by simp
qed

theorem loading_flag_around_requests_witness:
  "GetTopContributors 10 \<noteq> TestApiConnection
   \<and> fst failing_contributors_run = Inl (Error ''API error: 500 '')
   \<and> snd (snd failing_contributors_run)
       = [ShowLoading,
          Issue (plain_get ''https://palefo-mock-api-92d4b6d1e5b9.herokuapp.com/api/contributors/top?limit=10''),
          Settle, HideLoading]
   \<and> issued_under_loading (loading fresh_client) (snd (snd failing_contributors_run))
   \<and> \<not> loading (fst (snd failing_contributors_run))
   \<and> in_flight_covered (loading fresh_client) 0 (snd (snd failing_contributors_run))"
proof -
  let ?out = failing_contributors_run
  have out: "run (scripted [Inr (text_response 500 ''boom'')]) (GetTopContributors 10) fresh_client
      = (fst ?out, fst (snd ?out), snd (snd ?out))"
    by (simp add: failing_contributors_run_def)
  have res: "fst ?out = Inl (Error ''API error: 500 '')"
    by code_simp
  have evs: "snd (snd ?out)
       = [ShowLoading,
          Issue (plain_get ''https://palefo-mock-api-92d4b6d1e5b9.herokuapp.com/api/contributors/top?limit=10''),
          Settle, HideLoading]"
    by code_simp
  have same: "usingFallbackUrl (fst (snd ?out)) = usingFallbackUrl fresh_client"
    by code_simp
  from loading_flag_around_requests [OF out] same res evs show ?thesis
    by simp
qed

text \<open>
  Claim C10 as stated fails for \<open>testApiConnection\<close>: on a freshly loaded page, with a
  server that answers every probe, its four requests are issued and in flight while the
  loading flag is unset.
\<close>

theorem testApiConnection_requests_without_loading:
  "length (requests_of (snd (snd (run four_ok_world TestApiConnection fresh_client)))) = 4
   \<and> \<not> loading fresh_client
   \<and> \<not> issued_under_loading (loading fresh_client)
         (snd (snd (run four_ok_world TestApiConnection fresh_client)))
   \<and> \<not> in_flight_covered (loading fresh_client) 0
         (snd (snd (run four_ok_world TestApiConnection fresh_client)))"
  by code_simp

text \<open>
  The flag is one class on the document body, not a counter. When two calls overlap, the
  first to complete lowers the flag while the request of the other is still in flight.
\<close>

lemma overlapping_calls_lower_flag_early:
  "overlapped (snd (snd (run four_ok_world (GetTopContributors 10) fresh_client)))
       (snd (snd (run four_ok_world (GetContributionById 7) fresh_client)))
     = [ShowLoading,
        Issue (plain_get ''https://palefo-mock-api-92d4b6d1e5b9.herokuapp.com/api/contributors/top?limit=10''),
        ShowLoading,
        Issue \<lparr>req_method = ''GET'',
          req_url = ''https://palefo-mock-api-92d4b6d1e5b9.herokuapp.com/api/contributions/7'',
          req_headers = [(''Accept'', ''application/json'')], req_cors = True,
          req_body = NoBody, req_relay = False\<rparr>,
        Settle, HideLoading, Settle, HideLoading]
   \<and> \<not> in_flight_covered False 0
         (overlapped (snd (snd (run four_ok_world (GetTopContributors 10) fresh_client)))
            (snd (snd (run four_ok_world (GetContributionById 7) fresh_client))))"
  by code_simp

text \<open>
  In the retry of \<open>getContributions\<close> the outer call lowers the flag while the retried
  request is still in flight.
\<close>

lemma getContributions_retry_hides_early:
  "snd (snd (getContributions retry_world 1 20 False fresh_client))
     = [ShowLoading,
        Issue \<lparr>req_method = ''GET'',
          req_url = ''https://palefo-mock-api-92d4b6d1e5b9.herokuapp.com/api/contributions?page=1&pageSize=20'',
          req_headers = [(''Accept'', ''application/json'')], req_cors = True,
          req_body = NoBody, req_relay = False\<rparr>,
        Settle, ShowLoading,
        Issue \<lparr>req_method = ''GET'',
          req_url = ''https://localhost:7152/api/contributions?page=1&pageSize=20'',
          req_headers = [(''Accept'', ''application/json'')], req_cors = True,
          req_body = NoBody, req_relay = False\<rparr>,
        HideLoading, Settle, HideLoading]
   \<and> \<not> in_flight_covered False 0 (snd (snd (getContributions retry_world 1 20 False fresh_client)))"
  by code_simp

section \<open>The fallback retry of the contribution list\<close>

lemma requests_of_hide_after_suspend [simp]:
  "requests_of (hide_after_suspend evs) = requests_of evs"
  by (induction evs rule: hide_after_suspend.induct) simp_all

lemma getContributions_fallback_retry:
  assumes primary: "\<not> usingFallbackUrl s"
    and first: "fetchWithCorsHandling e (plain_get (contributions_url s page pageSize incl))
        (showLoading s) = (fetched, s2, evs0)"
    and fails: "(case fetched of Inl err \<Rightarrow> Inl err | Inr data \<Rightarrow> proxy_items (getApiUrl s2) data)
        = Inl err"
    and api: "str_includes (message err) ''API error''"
    and run: "getContributions e page pageSize incl s = (r, s', evs)"
  shows "usingFallbackUrl s'
     \<and> map req_url (requests_of evs)
        = [API_BASE_URL @ ''/contributions?page='' @ show_nat page @ ''&pageSize='' @ show_nat pageSize
             @ (if incl then ''&includeUnapproved=true'' else []),
           API_BASE_URLS_local @ ''/contributions?page='' @ show_nat page @ ''&pageSize=''
             @ show_nat pageSize]"
proof -
  from fetchWithCorsHandling_shape [OF first] obtain rq where
    rq: "evs0 = [Issue rq, Settle]" "req_url rq = contributions_url s page pageSize incl"
      "\<not> usingFallbackUrl s2"
    using primary by (auto simp: plain_get_def)
  obtain r2 s3 evs2 where inner: "getContributions e page pageSize False
      (s2\<lparr>usingFallbackUrl := True\<rparr>) = (r2, s3, evs2)"
    by (metis prod_cases3)
  have flag: "usingFallbackUrl (s2\<lparr>usingFallbackUrl := True\<rparr>)" by simp
  from getContributions_on_fallback [OF flag inner] obtain rq2 where
    rq2: "evs2 = [ShowLoading, Issue rq2, Settle, HideLoading]"
      "req_url rq2 = contributions_url (s2\<lparr>usingFallbackUrl := True\<rparr>) page pageSize False"
      "usingFallbackUrl s3"
    by blast
  from run first fails api rq(3) inner have
    "evs = ShowLoading # evs0 @ hide_after_suspend evs2 \<and> s' = s3"
    by (subst (asm) getContributions.simps) (simp add: Let_def)
  with rq rq2 primary show ?thesis
    by (simp add: contributions_url_def getApiUrl_def)
qed

text \<open>
  Claim C1. With the fallback flag unset, \<^verbatim>\<open>getContributions(1, 20, true)\<close> whose first
  request is answered with status 500 switches to the fallback URL and retries once, but
  the retried request has lost \<^verbatim>\<open>includeUnapproved=true\<close>: the catch block calls
  \<^verbatim>\<open>this.getContributions(page, pageSize)\<close>.
\<close>

theorem getContributions_retry_drops_includeUnapproved:
  "map req_url (requests_of (snd (snd (getContributions retry_world 1 20 True fresh_client))))
   = [''https://palefo-mock-api-92d4b6d1e5b9.herokuapp.com/api/contributions?page=1&pageSize=20&includeUnapproved=true'',
      ''https://localhost:7152/api/contributions?page=1&pageSize=20'']
   \<and> usingFallbackUrl (fst (snd (getContributions retry_world 1 20 True fresh_client)))
   \<and> fst (getContributions retry_world 1 20 True fresh_client) = Inr empty_page"
  by code_simp

section \<open>Submitting a contribution: what is returned\<close>

lemma read_submitted_fails: "read_submitted j \<noteq> Inr c"
  by (simp add: read_submitted_def split: sum.splits)

lemma submitContribution_never_returns:
  "fst (submitContribution e text audioBlob email gender region s) \<noteq> Inr c"
  by (auto simp: submitContribution_def Let_def read_submitted_fails
      split: option.splits prod.splits sum.splits)

lemma submitContribution_http_error:
  assumes "blob_size b \<noteq> 0" and "\<forall>req. net e (issued s) req = Inr resp" and "\<not> ok resp"
  shows "fst (submitContribution e text (Some b) email gender region s)
     = Inl (Error (''API error: '' @ show_nat (status resp)))"
  using assms
  by (simp add: submitContribution_def fetchWithCorsHandling_def fetch_def Let_def showLoading_def
      split: prod.splits)

text \<open>
  Claim C3. A submission with a non-empty blob that the server answers with 201 and the
  created contribution as JSON does not return that contribution: it fails with a
  \<^verbatim>\<open>TypeError\<close>, because the value tested with \<^verbatim>\<open>response.ok\<close> is the parsed body.
  Answered with 400 and an error text, it fails with \<^verbatim>\<open>API error: 400\<close>, which does not
  carry the text.
\<close>

theorem submitContribution_fails_on_created:
  "fst (submitContribution (scripted [Inr (json_response 201 created_contribution)])
         ''bonjou'' (Some webm_blob) [] [] [] fresh_client)
     = Inl (TypeError ''response.text is not a function'')
   \<and> fst (submitContribution (scripted [Inr (text_response 400 ''Audio file too large'')])
         ''bonjou'' (Some webm_blob) [] [] [] fresh_client)
     = Inl (Error ''API error: 400'')"
  by code_simp

section \<open>Audio URLs in a page of contributions\<close>

lemma field_JObj [simp]: "field (JObj kvs) k = map_of kvs k"
  by (simp add: field_def)










section \<open>The connection test\<close>

text \<open>
  Claim C4 as stated fails: when the \<^verbatim>\<open>fetch\<close> of the statistics probe is rejected at
  transport level, the report is the error message alone and no other probe runs, although
  the server would have answered them.
\<close>

theorem testApiConnection_aborts_on_rejection:
  "fst (testApiConnection stats_down_world fresh_client) = ReportError ''Failed to fetch''
   \<and> map req_url (requests_of (snd (snd (testApiConnection stats_down_world fresh_client))))
       = [''https://palefo-mock-api-92d4b6d1e5b9.herokuapp.com/api/statistics'']"
  by code_simp

text \<open>
  Claim C4, as amended. When the statistics, contributions and sentences requests are
  answered (with any status) and the bodies of the 2xx answers parse, the report holds
  for each of them its status and its payload, or \<^verbatim>\<open>"Failed"\<close> for a status that is
  not 2xx, and all four probes run. The AI phrase probe is reported in its own field
  whatever happens to it: its status and payload, \<^verbatim>\<open>"Failed"\<close> for a status that is not
  2xx, and status 500 with the error message when its \<^verbatim>\<open>fetch\<close> is rejected or its body
  does not parse.
\<close>

theorem testApiConnection_report:
  assumes "net e (issued s) (plain_get (getApiUrl s @ ''/statistics'')) = Inr r1"
    and "net e (issued s + 1) (plain_get (getApiUrl s @ ''/contributions?page=1&pageSize=5'')) = Inr r2"
    and "net e (issued s + 2) (plain_get (getApiUrl s @ ''/sentences/random?count=3'')) = Inr r3"
    and "ok r1 \<longrightarrow> body_json r1 = Inr j1"
    and "ok r2 \<longrightarrow> body_json r2 = Inr j2"
    and "ok r3 \<longrightarrow> body_json r3 = Inr j3"
  shows "fst (testApiConnection e s) =
      Report (getApiUrl s)
        \<lparr>probe_status = status r1, probe_data = (if ok r1 then j1 else JStr ''Failed'')\<rparr>
        \<lparr>probe_status = status r2, probe_data = (if ok r2 then j2 else JStr ''Failed'')\<rparr>
        \<lparr>probe_status = status r3, probe_data = (if ok r3 then j3 else JStr ''Failed'')\<rparr>
        (case net e (issued s + 3) (plain_get (getApiUrl s @ ''/ai/gemini-phrase?difficultyLevel=2'')) of
           Inl err \<Rightarrow> \<lparr>probe_status = 500, probe_data = JStr (''Error: '' @ message err)\<rparr>
         | Inr r4 \<Rightarrow>
             if ok r4 then
               (case body_json r4 of
                  Inl err \<Rightarrow> \<lparr>probe_status = 500, probe_data = JStr (''Error: '' @ message err)\<rparr>
                | Inr j4 \<Rightarrow> \<lparr>probe_status = status r4, probe_data = j4\<rparr>)
             else \<lparr>probe_status = status r4, probe_data = JStr ''Failed''\<rparr>)
    \<and> map req_url (requests_of (snd (snd (testApiConnection e s))))
        = [getApiUrl s @ ''/statistics'', getApiUrl s @ ''/contributions?page=1&pageSize=5'',
           getApiUrl s @ ''/sentences/random?count=3'',
           getApiUrl s @ ''/ai/gemini-phrase?difficultyLevel=2'']"
proof -
  have three: "issued s + 3 = Suc (Suc (Suc (issued s)))"
    by simp
  show ?thesis
    using assms unfolding three
    by (auto simp: testApiConnection_def fetch_def Let_def probe_data_of_def gemini_probe_def
        plain_get_def split: sum.splits)
qed


theorem testApiConnection_report_witness:
  "fst (testApiConnection mixed_world fresh_client) =
      Report ''https://palefo-mock-api-92d4b6d1e5b9.herokuapp.com/api''
        \<lparr>probe_status = 200, probe_data = JObj [(''totalContributions'', JNum 12)]\<rparr>
        \<lparr>probe_status = 404, probe_data = JStr ''Failed''\<rparr>
        \<lparr>probe_status = 200, probe_data = JArr []\<rparr>
        \<lparr>probe_status = 500, probe_data = JStr ''Error: Failed to fetch''\<rparr>
   \<and> map req_url (requests_of (snd (snd (testApiConnection mixed_world fresh_client))))
        = [''https://palefo-mock-api-92d4b6d1e5b9.herokuapp.com/api/statistics'',
           ''https://palefo-mock-api-92d4b6d1e5b9.herokuapp.com/api/contributions?page=1&pageSize=5'',
           ''https://palefo-mock-api-92d4b6d1e5b9.herokuapp.com/api/sentences/random?count=3'',
           ''https://palefo-mock-api-92d4b6d1e5b9.herokuapp.com/api/ai/gemini-phrase?difficultyLevel=2'']"
  using testApiConnection_report [of mixed_world fresh_client
      "json_response 200 (JObj [(''totalContributions'', JNum 12)])"
      "text_response 404 ''Not Found''" "json_response 200 (JArr [])"
      "JObj [(''totalContributions'', JNum 12)]" JNull "JArr []"]
  by (simp add: mixed_world_def scripted_def fresh_client_def json_response_def
      text_response_def ok_def getApiUrl_def API_BASE_URL_def API_BASE_URLS_production_def)

text \<open>
  A rejected \<^verbatim>\<open>fetch\<close> of one of the first three probes ends the test in the outer catch
  block: the report is the message, and no later probe is requested.
\<close>

lemma testApiConnection_first_probes_abort:
  "(net e (issued s) (plain_get (getApiUrl s @ ''/statistics'')) = Inl err \<longrightarrow>
      fst (testApiConnection e s) = ReportError (message err)
      \<and> length (requests_of (snd (snd (testApiConnection e s)))) = 1)
   \<and> (net e (issued s) (plain_get (getApiUrl s @ ''/statistics'')) = Inr r1
        \<and> probe_data_of r1 = Inr d1
        \<and> net e (Suc (issued s)) (plain_get (getApiUrl s @ ''/contributions?page=1&pageSize=5''))
            = Inl err \<longrightarrow>
      fst (testApiConnection e s) = ReportError (message err)
      \<and> length (requests_of (snd (snd (testApiConnection e s)))) = 2)
   \<and> (net e (issued s) (plain_get (getApiUrl s @ ''/statistics'')) = Inr r1
        \<and> probe_data_of r1 = Inr d1
        \<and> net e (Suc (issued s)) (plain_get (getApiUrl s @ ''/contributions?page=1&pageSize=5''))
            = Inr r2
        \<and> probe_data_of r2 = Inr d2
        \<and> net e (Suc (Suc (issued s))) (plain_get (getApiUrl s @ ''/sentences/random?count=3''))
            = Inl err \<longrightarrow>
      fst (testApiConnection e s) = ReportError (message err)
      \<and> length (requests_of (snd (snd (testApiConnection e s)))) = 3)"
  by (simp add: testApiConnection_def fetch_def Let_def)

section \<open>Prize eligibility: thresholds\<close>

lemma get_prop_field: "c \<noteq> JNull \<Longrightarrow> get_prop c k = Inr (field c k)"
  by (cases c) (simp_all add: field_def)

lemma find_email_first:
  assumes "\<forall>c \<in> set before. c \<noteq> JNull \<and> field c ''email'' \<noteq> Some (JStr em)"
    and "map_of kvs ''email'' = Some (JStr em)"
  shows "find_email (before @ JObj kvs # rest) em = Inr (Some (JObj kvs))"
  using assms by (induction before) (simp_all add: get_prop_field)

lemma find_email_none:
  assumes "\<forall>c \<in> set cs. c \<noteq> JNull \<and> field c ''email'' \<noteq> Some (JStr em)"
  shows "find_email cs em = Inr None"
  using assms by (induction cs) (simp_all add: get_prop_field)

lemma eligibility_of_count:
  assumes "map_of kvs ''contributionCount'' = Some (JNum n)
     \<or> map_of kvs ''contributionCount'' = None \<and> n = 0"
  shows "\<exists>msg. eligibility_of e (JObj kvs) =
       Inr \<lparr>eligible = (n \<ge> 1000), elig_message = msg, contributionCount = JNum n,
            laptopEligible = (n \<ge> 10000), tshirtEligible = (n \<ge> 1000)\<rparr>
     \<and> (0 \<le> n \<longrightarrow> msg = prize_message n)"
  using assms
  by (auto simp: eligibility_of_def js_ge_def Let_def prize_message_def minus_text_def
      safe_integer_def)

lemma top_contributors_ok:
  assumes "net e (issued s) (plain_get (getApiUrl s @ ''/contributors/top?limit=50'')) = Inr resp"
    and "ok resp" and "body_json resp = Inr j"
  shows "fst (getTopContributors e 50 s) = Inr j"
proof -
  have "show_nat 50 = ''50''" by code_simp
  with assms show ?thesis
    by (simp add: getTopContributors_def fetch_def Let_def showLoading_def getApiUrl_def)
qed

lemma top_contributors_request:
  "requests_of (snd (snd (getTopContributors e 50 s)))
     = [plain_get (getApiUrl s @ ''/contributors/top?limit=50'')]"
proof -
  have "show_nat 50 = ''50''" by code_simp
  then show ?thesis
    by (simp add: getTopContributors_def fetch_def Let_def showLoading_def getApiUrl_def)
qed

text \<open>
  Claim C5. With a falsy email (\<^verbatim>\<open>null\<close>, \<^verbatim>\<open>undefined\<close> or the empty string) the
  result is the fixed not-eligible record and nothing is requested. With a non-empty
  email exactly one request is issued, for the top 50 contributors. When it is answered
  with a list, the first entry with that email decides: with \<open>n\<close> its contribution count
  (0 when it has none), \<^verbatim>\<open>laptopEligible\<close> is \<open>n \<ge> 10000\<close>, \<^verbatim>\<open>tshirtEligible\<close> is
  \<open>n \<ge> 1000\<close> and \<^verbatim>\<open>eligible\<close> equals \<^verbatim>\<open>tshirtEligible\<close>, for every integer \<open>n\<close>;
  for a count that is not negative the message is the one that goes with it. When no
  entry has that email, the result is not eligible with count 0.
\<close>

theorem checkPrizeEligibility_thresholds:
  "(email = None \<or> email = Some [] \<longrightarrow>
      checkPrizeEligibility e email s =
        (Inr \<lparr>eligible = False, elig_message = ''Email required for prize eligibility'',
              contributionCount = JNum 0, laptopEligible = False, tshirtEligible = False\<rparr>,
         s, []))
   \<and> (em \<noteq> [] \<longrightarrow>
        requests_of (snd (snd (checkPrizeEligibility e (Some em) s)))
          = [plain_get (getApiUrl s @ ''/contributors/top?limit=50'')])
   \<and> (em \<noteq> []
        \<and> net e (issued s) (plain_get (getApiUrl s @ ''/contributors/top?limit=50'')) = Inr resp
        \<and> ok resp \<and> body_json resp = Inr (JArr (before @ JObj kvs # rest))
        \<and> (\<forall>c \<in> set before. c \<noteq> JNull \<and> field c ''email'' \<noteq> Some (JStr em))
        \<and> map_of kvs ''email'' = Some (JStr em)
        \<and> (map_of kvs ''contributionCount'' = Some (JNum n)
             \<or> map_of kvs ''contributionCount'' = None \<and> n = 0)
      \<longrightarrow> (\<exists>msg. fst (checkPrizeEligibility e (Some em) s) =
               Inr \<lparr>eligible = (n \<ge> 1000), elig_message = msg, contributionCount = JNum n,
                    laptopEligible = (n \<ge> 10000), tshirtEligible = (n \<ge> 1000)\<rparr>
             \<and> (0 \<le> n \<longrightarrow> msg = prize_message n)))
   \<and> (em \<noteq> []
        \<and> net e (issued s) (plain_get (getApiUrl s @ ''/contributors/top?limit=50'')) = Inr resp
        \<and> ok resp \<and> body_json resp = Inr (JArr cs)
        \<and> (\<forall>c \<in> set cs. c \<noteq> JNull \<and> field c ''email'' \<noteq> Some (JStr em))
      \<longrightarrow> fst (checkPrizeEligibility e (Some em) s) =
             Inr \<lparr>eligible = False, elig_message = ''No contributions found for this email'',
                  contributionCount = JNum 0, laptopEligible = False, tshirtEligible = False\<rparr>)"
proof (intro conjI impI)
  assume "email = None \<or> email = Some []"
  then show "checkPrizeEligibility e email s =
        (Inr \<lparr>eligible = False, elig_message = ''Email required for prize eligibility'',
              contributionCount = JNum 0, laptopEligible = False, tshirtEligible = False\<rparr>,
         s, [])"
    by (auto simp: checkPrizeEligibility_def not_eligible_def)
next
  assume "em \<noteq> []"
  then show "requests_of (snd (snd (checkPrizeEligibility e (Some em) s)))
          = [plain_get (getApiUrl s @ ''/contributors/top?limit=50'')]"
    using top_contributors_request [of e s]
    by (auto simp: checkPrizeEligibility_def Let_def split: prod.splits sum.splits option.splits)
next
  assume a: "em \<noteq> []
        \<and> net e (issued s) (plain_get (getApiUrl s @ ''/contributors/top?limit=50'')) = Inr resp
        \<and> ok resp \<and> body_json resp = Inr (JArr (before @ JObj kvs # rest))
        \<and> (\<forall>c \<in> set before. c \<noteq> JNull \<and> field c ''email'' \<noteq> Some (JStr em))
        \<and> map_of kvs ''email'' = Some (JStr em)
        \<and> (map_of kvs ''contributionCount'' = Some (JNum n)
             \<or> map_of kvs ''contributionCount'' = None \<and> n = 0)"
  then have top: "fst (getTopContributors e 50 s) = Inr (JArr (before @ JObj kvs # rest))"
    by (simp add: top_contributors_ok)
  from a have found: "find_email (before @ JObj kvs # rest) em = Inr (Some (JObj kvs))"
    by (simp add: find_email_first)
  from a eligibility_of_count [of kvs n e] obtain msg where
    msg: "eligibility_of e (JObj kvs) =
       Inr \<lparr>eligible = (n \<ge> 1000), elig_message = msg, contributionCount = JNum n,
          laptopEligible = (n \<ge> 10000), tshirtEligible = (n \<ge> 1000)\<rparr>"
      "0 \<le> n \<longrightarrow> msg = prize_message n"
    by blast
  from a top found msg(1) have "fst (checkPrizeEligibility e (Some em) s) =
             Inr \<lparr>eligible = (n \<ge> 1000), elig_message = msg, contributionCount = JNum n,
                  laptopEligible = (n \<ge> 10000), tshirtEligible = (n \<ge> 1000)\<rparr>"
    by (auto simp: checkPrizeEligibility_def Let_def array_find_email_def split: prod.splits)
  with msg(2) show "\<exists>msg. fst (checkPrizeEligibility e (Some em) s) =
               Inr \<lparr>eligible = (n \<ge> 1000), elig_message = msg, contributionCount = JNum n,
                    laptopEligible = (n \<ge> 10000), tshirtEligible = (n \<ge> 1000)\<rparr>
             \<and> (0 \<le> n \<longrightarrow> msg = prize_message n)"
    by blast
next
  assume a: "em \<noteq> []
        \<and> net e (issued s) (plain_get (getApiUrl s @ ''/contributors/top?limit=50'')) = Inr resp
        \<and> ok resp \<and> body_json resp = Inr (JArr cs)
        \<and> (\<forall>c \<in> set cs. c \<noteq> JNull \<and> field c ''email'' \<noteq> Some (JStr em))"
  then have top: "fst (getTopContributors e 50 s) = Inr (JArr cs)"
    by (simp add: top_contributors_ok)
  from a have "find_email cs em = Inr None"
    by (simp add: find_email_none)
  with a top show "fst (checkPrizeEligibility e (Some em) s) =
             Inr \<lparr>eligible = False, elig_message = ''No contributions found for this email'',
                  contributionCount = JNum 0, laptopEligible = False, tshirtEligible = False\<rparr>"
    by (auto simp: checkPrizeEligibility_def Let_def array_find_email_def not_eligible_def
        split: prod.splits)
qed


theorem checkPrizeEligibility_thresholds_witness:
  "checkPrizeEligibility top_world (Some []) fresh_client =
      (Inr \<lparr>eligible = False, elig_message = ''Email required for prize eligibility'',
            contributionCount = JNum 0, laptopEligible = False, tshirtEligible = False\<rparr>,
       fresh_client, [])
   \<and> map req_url (requests_of (snd (snd (checkPrizeEligibility top_world (Some ''b@palefo.ht'')
        fresh_client))))
      = [''https://palefo-mock-api-92d4b6d1e5b9.herokuapp.com/api/contributors/top?limit=50'']
   \<and> fst (checkPrizeEligibility top_world (Some ''a@palefo.ht'') fresh_client) =
         Inr \<lparr>eligible = True, elig_message = ''Congratulations! You've qualified for a laptop!'',
              contributionCount = JNum 10000, laptopEligible = True, tshirtEligible = True\<rparr>
   \<and> fst (checkPrizeEligibility top_world (Some ''b@palefo.ht'') fresh_client) =
         Inr \<lparr>eligible = True, elig_message = ''You've qualified for a t-shirt and surprise gift!'',
              contributionCount = JNum 1000, laptopEligible = False, tshirtEligible = True\<rparr>
   \<and> fst (checkPrizeEligibility top_world (Some ''c@palefo.ht'') fresh_client) =
         Inr \<lparr>eligible = False,
              elig_message = ''You need 1 more valid contributions to qualify for a t-shirt'',
              contributionCount = JNum 999, laptopEligible = False, tshirtEligible = False\<rparr>
   \<and> fst (checkPrizeEligibility top_world (Some ''d@palefo.ht'') fresh_client) =
         Inr \<lparr>eligible = False, elig_message = ''No contributions found for this email'',
              contributionCount = JNum 0, laptopEligible = False, tshirtEligible = False\<rparr>"
proof -
  let ?a = "[(''email'', JStr ''a@palefo.ht''), (''contributionCount'', JNum 10000)]"
  let ?b = "[(''email'', JStr ''b@palefo.ht''), (''contributionCount'', JNum 1000)]"
  let ?c = "[(''email'', JStr ''c@palefo.ht''), (''contributionCount'', JNum 999)]"
  have one: "show_int 1 = ''1''"
    by code_simp
  note defs = top_world_def top_three_def scripted_def fresh_client_def json_response_def ok_def
    getApiUrl_def API_BASE_URL_def API_BASE_URLS_production_def plain_get_def prize_message_def one
  have empty: "checkPrizeEligibility top_world (Some []) fresh_client =
      (Inr \<lparr>eligible = False, elig_message = ''Email required for prize eligibility'',
            contributionCount = JNum 0, laptopEligible = False, tshirtEligible = False\<rparr>,
       fresh_client, [])"
    using checkPrizeEligibility_thresholds [where email = "Some []" and e = top_world
        and s = fresh_client]
    by simp
  have req: "map req_url (requests_of (snd (snd (checkPrizeEligibility top_world
        (Some ''b@palefo.ht'') fresh_client))))
      = [''https://palefo-mock-api-92d4b6d1e5b9.herokuapp.com/api/contributors/top?limit=50'']"
    using checkPrizeEligibility_thresholds [where em = "''b@palefo.ht''" and e = top_world
        and s = fresh_client]
    by (simp add: defs)
  have a: "fst (checkPrizeEligibility top_world (Some ''a@palefo.ht'') fresh_client) =
         Inr \<lparr>eligible = True, elig_message = ''Congratulations! You've qualified for a laptop!'',
              contributionCount = JNum 10000, laptopEligible = True, tshirtEligible = True\<rparr>"
    using checkPrizeEligibility_thresholds [where em = "''a@palefo.ht''" and e = top_world
        and s = fresh_client and resp = "json_response 200 top_three" and before = "[]"
        and kvs = ?a and rest = "[JObj ?b, JObj ?c]" and n = 10000]
    by (simp add: defs)
  have b: "fst (checkPrizeEligibility top_world (Some ''b@palefo.ht'') fresh_client) =
         Inr \<lparr>eligible = True, elig_message = ''You've qualified for a t-shirt and surprise gift!'',
              contributionCount = JNum 1000, laptopEligible = False, tshirtEligible = True\<rparr>"
    using checkPrizeEligibility_thresholds [where em = "''b@palefo.ht''" and e = top_world
        and s = fresh_client and resp = "json_response 200 top_three" and before = "[JObj ?a]"
        and kvs = ?b and rest = "[JObj ?c]" and n = 1000]
    by (simp add: defs)
  have c: "fst (checkPrizeEligibility top_world (Some ''c@palefo.ht'') fresh_client) =
         Inr \<lparr>eligible = False,
              elig_message = ''You need 1 more valid contributions to qualify for a t-shirt'',
              contributionCount = JNum 999, laptopEligible = False, tshirtEligible = False\<rparr>"
    using checkPrizeEligibility_thresholds [where em = "''c@palefo.ht''" and e = top_world
        and s = fresh_client and resp = "json_response 200 top_three"
        and before = "[JObj ?a, JObj ?b]" and kvs = ?c and rest = "[]" and n = 999]
    by (simp add: defs)
  have d: "fst (checkPrizeEligibility top_world (Some ''d@palefo.ht'') fresh_client) =
         Inr \<lparr>eligible = False, elig_message = ''No contributions found for this email'',
              contributionCount = JNum 0, laptopEligible = False, tshirtEligible = False\<rparr>"
    using checkPrizeEligibility_thresholds [where em = "''d@palefo.ht''" and e = top_world
        and s = fresh_client and resp = "json_response 200 top_three"
        and cs = "[JObj ?a, JObj ?b, JObj ?c]"]
    by (simp add: defs)
  from empty req a b c d show ?thesis
    by blast
qed

section \<open>Moderation: the three buckets\<close>

lemma filter_result_total:
  assumes "JNull \<notin> set cs" and "\<And>c. c \<noteq> JNull \<Longrightarrow> p c = Inr (q c)"
  shows "filter_result p cs = Inr (filter q cs)"
  using assms(1) by (induction cs) (auto simp: assms(2))

lemma callbacks_buckets:
  assumes "c \<noteq> JNull"
  shows "is_approved c = Inr (approved_bucket c)"
    and "is_rejected c = Inr (rejected_bucket c)"
    and "is_pending c = Inr (pending_bucket c)"
  using assms
  by (simp_all add: is_approved_def is_rejected_def is_pending_def approved_bucket_def
      rejected_bucket_def pending_bucket_def get_prop_field)

lemma moderation_items:
  assumes "\<forall>req. net e (issued s) req = Inr resp" and "ok resp"
    and "body_json resp = Inr (JArr cs)" and "JNull \<notin> set cs"
    and "\<And>c. c \<noteq> JNull \<Longrightarrow> filter_callback (case filter_arg of None \<Rightarrow> ''pending'' | Some f \<Rightarrow> f) c
           = Inr (q c)"
  shows "fst (getContributionsForModeration e page pageSize filter_arg s) =
     Inr \<lparr>mod_items = filter q cs, mod_page = page, mod_pageSize = pageSize,
          mod_filter = (case filter_arg of None \<Rightarrow> ''pending'' | Some f \<Rightarrow> f)\<rparr>"
  using assms(1-3) filter_result_total [OF assms(4), of _ q, OF assms(5)]
  by (simp add: getContributionsForModeration_def fetchWithCorsHandling_def fetch_def Let_def
      showLoading_def array_filter_def)

lemma buckets_lengths:
  "length (filter approved_bucket cs) + length (filter rejected_bucket cs)
     + length (filter pending_bucket cs) = length cs"
  by (induction cs) (auto simp: approved_bucket_def rejected_bucket_def pending_bucket_def)

text \<open>
  Claim C6. When the list of contributions is fetched, the items returned for the filter
  \<^verbatim>\<open>approved\<close>, \<^verbatim>\<open>rejected\<close> and \<^verbatim>\<open>pending\<close> (also the default, when no filter is
  given) are exactly the approved, the rejected and the pending contributions of the
  list, in order; every contribution is in exactly one of the three states, and the three
  buckets together have as many entries as the list.
\<close>

theorem moderation_buckets_partition:
  assumes "\<forall>req. net e (issued s) req = Inr resp" and "ok resp"
    and "body_json resp = Inr (JArr cs)" and "JNull \<notin> set cs"
  shows "fst (getContributionsForModeration e page pageSize (Some ''approved'') s) =
       Inr \<lparr>mod_items = filter approved_bucket cs, mod_page = page, mod_pageSize = pageSize,
            mod_filter = ''approved''\<rparr>
     \<and> fst (getContributionsForModeration e page pageSize (Some ''rejected'') s) =
       Inr \<lparr>mod_items = filter rejected_bucket cs, mod_page = page, mod_pageSize = pageSize,
            mod_filter = ''rejected''\<rparr>
     \<and> fst (getContributionsForModeration e page pageSize (Some ''pending'') s) =
       Inr \<lparr>mod_items = filter pending_bucket cs, mod_page = page, mod_pageSize = pageSize,
            mod_filter = ''pending''\<rparr>
     \<and> fst (getContributionsForModeration e page pageSize None s) =
       Inr \<lparr>mod_items = filter pending_bucket cs, mod_page = page, mod_pageSize = pageSize,
            mod_filter = ''pending''\<rparr>
     \<and> (\<forall>c. (approved_bucket c \<and> \<not> rejected_bucket c \<and> \<not> pending_bucket c)
           \<or> (\<not> approved_bucket c \<and> rejected_bucket c \<and> \<not> pending_bucket c)
           \<or> (\<not> approved_bucket c \<and> \<not> rejected_bucket c \<and> pending_bucket c))
     \<and> length (filter approved_bucket cs) + length (filter rejected_bucket cs)
         + length (filter pending_bucket cs) = length cs"
proof -
  have a: "fst (getContributionsForModeration e page pageSize (Some ''approved'') s) =
       Inr \<lparr>mod_items = filter approved_bucket cs, mod_page = page, mod_pageSize = pageSize,
            mod_filter = ''approved''\<rparr>"
    using moderation_items [OF assms, of "Some ''approved''" approved_bucket page pageSize]
    by (simp add: filter_callback_def callbacks_buckets)
  have r: "fst (getContributionsForModeration e page pageSize (Some ''rejected'') s) =
       Inr \<lparr>mod_items = filter rejected_bucket cs, mod_page = page, mod_pageSize = pageSize,
            mod_filter = ''rejected''\<rparr>"
    using moderation_items [OF assms, of "Some ''rejected''" rejected_bucket page pageSize]
    by (simp add: filter_callback_def callbacks_buckets)
  have p: "fst (getContributionsForModeration e page pageSize (Some ''pending'') s) =
       Inr \<lparr>mod_items = filter pending_bucket cs, mod_page = page, mod_pageSize = pageSize,
            mod_filter = ''pending''\<rparr>"
    using moderation_items [OF assms, of "Some ''pending''" pending_bucket page pageSize]
    by (simp add: filter_callback_def callbacks_buckets)
  have d: "fst (getContributionsForModeration e page pageSize None s) =
       Inr \<lparr>mod_items = filter pending_bucket cs, mod_page = page, mod_pageSize = pageSize,
            mod_filter = ''pending''\<rparr>"
    using moderation_items [OF assms, of None pending_bucket page pageSize]
    by (simp add: filter_callback_def callbacks_buckets)
  have one: "\<forall>c. (approved_bucket c \<and> \<not> rejected_bucket c \<and> \<not> pending_bucket c)
           \<or> (\<not> approved_bucket c \<and> rejected_bucket c \<and> \<not> pending_bucket c)
           \<or> (\<not> approved_bucket c \<and> \<not> rejected_bucket c \<and> pending_bucket c)"
    by (auto simp: approved_bucket_def rejected_bucket_def pending_bucket_def)
  from a r p d one buckets_lengths [of cs] show ?thesis
    by blast
qed


theorem moderation_buckets_partition_witness:
  "JNull \<notin> set moderation_list
   \<and> fst (getContributionsForModeration moderation_world 1 10 (Some ''approved'') fresh_client) =
       Inr \<lparr>mod_items = [JObj [(''id'', JNum 1), (''isApproved'', JBool True)]],
            mod_page = 1, mod_pageSize = 10, mod_filter = ''approved''\<rparr>
   \<and> fst (getContributionsForModeration moderation_world 1 10 (Some ''rejected'') fresh_client) =
       Inr \<lparr>mod_items = [JObj [(''id'', JNum 2), (''isApproved'', JBool False),
                                 (''rejectionReason'', JStr ''noisy'')]],
            mod_page = 1, mod_pageSize = 10, mod_filter = ''rejected''\<rparr>
   \<and> fst (getContributionsForModeration moderation_world 1 10 None fresh_client) =
       Inr \<lparr>mod_items = [JObj [(''id'', JNum 3), (''isApproved'', JBool False),
                                 (''rejectionReason'', JNull)]],
            mod_page = 1, mod_pageSize = 10, mod_filter = ''pending''\<rparr>"
proof -
  have served: "\<forall>req. net moderation_world (issued fresh_client) req
      = Inr (json_response 200 (JArr moderation_list))"
    by (simp add: moderation_world_def scripted_def fresh_client_def)
  have fine: "ok (json_response 200 (JArr moderation_list))"
    by (simp add: ok_def json_response_def)
  have body: "body_json (json_response 200 (JArr moderation_list)) = Inr (JArr moderation_list)"
    by (simp add: json_response_def)
  have no_null: "JNull \<notin> set moderation_list"
    by (simp add: moderation_list_def)
  have buckets: "filter approved_bucket moderation_list
        = [JObj [(''id'', JNum 1), (''isApproved'', JBool True)]]"
    "filter rejected_bucket moderation_list
        = [JObj [(''id'', JNum 2), (''isApproved'', JBool False),
                 (''rejectionReason'', JStr ''noisy'')]]"
    "filter pending_bucket moderation_list
        = [JObj [(''id'', JNum 3), (''isApproved'', JBool False), (''rejectionReason'', JNull)]]"
    by (simp_all add: moderation_list_def approved_bucket_def rejected_bucket_def
        pending_bucket_def field_def)
  from moderation_buckets_partition [OF served fine body no_null, of 1 10] no_null
  show ?thesis
    unfolding buckets by simp
qed

text \<open>
  The list has to arrive as a JSON array. Answered with a page object, the shape that
  \<open>getContributions\<close> reads from the same resource, the moderation call fails.
\<close>

lemma moderation_of_page_object_fails:
  "fst (getContributionsForModeration azure_world 1 10 None fresh_client)
     = Inl (TypeError ''contributions.filter is not a function'')"
  by code_simp

end
